theory Spec2Isabelle
  imports Main
begin

section \<open>Python values, exceptions and strings\<close>

text \<open>
  The three tools of \<^verbatim>\<open>tools/data_tools.py\<close> take one string and return one string.
  Between the two they use \<^verbatim>\<open>json\<close>, \<^verbatim>\<open>os\<close>, \<^verbatim>\<open>pandas\<close>, \<^verbatim>\<open>seaborn\<close> and
  \<^verbatim>\<open>matplotlib\<close>. The control flow of the tools is modelled here as it is written; every
  library computation whose result is not fixed by the tool's own text (parsing, number
  formatting, statistics, rendering, the evaluation of caller-supplied expressions) is a
  field of the record \<open>pylib\<close> below and is never assumed to succeed. Library calls are
  taken to return: each either yields a value or raises.

  A value produced by \<^verbatim>\<open>json.loads\<close>: \<^verbatim>\<open>None\<close>, a bool, an int, a float (kept as its
  printed form, no arithmetic is done on it), a string, a list, or a dict with string keys
  (an association list in insertion order, read with \<open>map_of\<close>).
\<close>

datatype pyval =
    PNone
  | PBool bool
  | PInt int
  | PFloat string
  | PStr string
  | PList "pyval list"
  | PDict "(string \<times> pyval) list"

text \<open>
  Exception classes. \<^verbatim>\<open>SystemExit\<close>, \<^verbatim>\<open>KeyboardInterrupt\<close> and \<^verbatim>\<open>GeneratorExit\<close> derive from
  \<^verbatim>\<open>BaseException\<close> directly; every other class derives from \<^verbatim>\<open>Exception\<close>
  (\<open>OtherError\<close> carries the class name of any other error, of a library or defined
  by evaluated code). An exception is its class and what \<^verbatim>\<open>str(e)\<close> does: it gives a
  text (\<open>PyExc\<close>), or, the class being free to define \<^verbatim>\<open>__str__\<close>, it raises an
  exception in turn (\<open>PyExcNoStr\<close>).
\<close>

datatype exc_class =
    JSONDecodeError
  | AttributeError
  | TypeError
  | KeyError
  | ValueError
  | FileNotFoundError
  | OtherError string
  | SystemExit
  | KeyboardInterrupt
  | GeneratorExit

datatype py_exc = PyExc exc_class string | PyExcNoStr exc_class py_exc

text \<open>\<^verbatim>\<open>str(e)\<close>: the text, or the exception it raises.\<close>

fun exc_str :: "py_exc \<Rightarrow> py_exc + string" where
  "exc_str (PyExc c msg) = Inr msg"
| "exc_str (PyExcNoStr c raised) = Inl raised"

fun issubclass_Exception :: "exc_class \<Rightarrow> bool" where
  "issubclass_Exception SystemExit = False"
| "issubclass_Exception KeyboardInterrupt = False"
| "issubclass_Exception GeneratorExit = False"
| "issubclass_Exception c = True"

fun isinstance_Exception :: "py_exc \<Rightarrow> bool" where
  "isinstance_Exception (PyExc c msg) = issubclass_Exception c"
| "isinstance_Exception (PyExcNoStr c raised) = issubclass_Exception c"

fun type_name :: "pyval \<Rightarrow> string" where
  "type_name PNone = ''NoneType''"
| "type_name (PBool b) = ''bool''"
| "type_name (PInt i) = ''int''"
| "type_name (PFloat f) = ''float''"
| "type_name (PStr s) = ''str''"
| "type_name (PList xs) = ''list''"
| "type_name (PDict d) = ''dict''"

text \<open>A text between single quotes, as the tools' f-strings and Python's messages
  write names.\<close>

definition quoted :: "string \<Rightarrow> string" where
  "quoted s = [CHR 0x27] @ s @ [CHR 0x27]"

text \<open>\<^verbatim>\<open>v.get(...)\<close> on a value that is not a dict.\<close>

definition no_attribute_get :: "pyval \<Rightarrow> py_exc" where
  "no_attribute_get v =
     PyExc AttributeError (quoted (type_name v) @ '' object has no attribute '' @ quoted ''get'')"

text \<open>\<^verbatim>\<open>d.get(k, default)\<close> and \<^verbatim>\<open>k in d\<close> on a dict.\<close>

definition dict_get :: "(string \<times> pyval) list \<Rightarrow> string \<Rightarrow> pyval \<Rightarrow> pyval" where
  "dict_get d k dflt = (case map_of d k of None \<Rightarrow> dflt | Some v \<Rightarrow> v)"

definition dict_has :: "(string \<times> pyval) list \<Rightarrow> string \<Rightarrow> bool" where
  "dict_has d k = (map_of d k \<noteq> None)"

text \<open>Truth value of a Python value, as \<^verbatim>\<open>if hue and ...\<close> tests it.\<close>

fun py_truthy :: "pyval \<Rightarrow> bool" where
  "py_truthy PNone = False"
| "py_truthy (PBool b) = b"
| "py_truthy (PInt i) = (i \<noteq> 0)"
| "py_truthy (PFloat f) = (f \<noteq> ''0.0'' \<and> f \<noteq> ''-0.0'')"
| "py_truthy (PStr s) = (s \<noteq> [])"
| "py_truthy (PList xs) = (xs \<noteq> [])"
| "py_truthy (PDict d) = (d \<noteq> [])"

text \<open>
  Strings are lists of 8-bit characters. \<^verbatim>\<open>str.lower\<close> is modelled on the ASCII letters;
  other characters are left as they are. \<^verbatim>\<open>s.split(sep)\<close> for a one-character separator
  always returns at least one piece.
\<close>

definition lower_char :: "char \<Rightarrow> char" where
  "lower_char c =
     (let n = (of_char c :: nat) in if 65 \<le> n \<and> n \<le> 90 then char_of (n + 32) else c)"

definition lower :: "string \<Rightarrow> string" where
  "lower s = map lower_char s"

fun split_str :: "char \<Rightarrow> string \<Rightarrow> string list" where
  "split_str sep [] = [ [] ]"
| "split_str sep (c # cs) =
     (if c = sep then [] # split_str sep cs
      else (case split_str sep cs of [] \<Rightarrow> [ [c] ] | p # ps \<Rightarrow> (c # p) # ps))"

text \<open>\<^verbatim>\<open>posixpath.dirname\<close>: the part up to the last slash, trailing slashes removed
  unless it consists of slashes only.\<close>

definition dirname :: "string \<Rightarrow> string" where
  "dirname p =
     (let head = concat (map (\<lambda>s. s @ ''/'') (butlast (split_str CHR ''/'' p)))
      in if head \<noteq> [] \<and> \<not> list_all (\<lambda>c. c = CHR ''/'') head
         then rev (dropWhile (\<lambda>c. c = CHR ''/'') (rev head)) else head)"

text \<open>Substring test, used to say that a message mentions a name.\<close>

fun starts_with :: "string \<Rightarrow> string \<Rightarrow> bool" where
  "starts_with s [] = True"
| "starts_with [] (p # ps) = False"
| "starts_with (c # cs) (p # ps) = (c = p \<and> starts_with cs ps)"

fun mentions :: "string \<Rightarrow> string \<Rightarrow> bool" where
  "mentions [] sub = (sub = [])"
| "mentions (c # cs) sub = (starts_with (c # cs) sub \<or> mentions cs sub)"

section \<open>Data frames\<close>

text \<open>
  A \<^verbatim>\<open>DataFrame\<close> as the tools use it: column labels with their dtype, and the rows. The
  dtypes are those \<^verbatim>\<open>read_csv\<close> infers by default. \<open>NaN\<close> is the missing value.
\<close>

datatype dtype = Int64 | Float64 | Bool | Object

datatype cell = NaN | IntV int | FloatV string | BoolV bool | StrV string

record dataframe =
  columns :: "(string \<times> dtype) list"
  rows :: "cell list list"

definition column_names :: "dataframe \<Rightarrow> string list" where
  "column_names df = map fst (columns df)"

text \<open>\<^verbatim>\<open>df.shape\<close>, serialised by \<^verbatim>\<open>json.dumps\<close> as a two-element list.\<close>

definition shape :: "dataframe \<Rightarrow> pyval" where
  "shape df = PList [PInt (int (length (rows df))), PInt (int (length (columns df)))]"

text \<open>\<^verbatim>\<open>df.empty\<close>: some axis has length 0.\<close>

definition empty :: "dataframe \<Rightarrow> bool" where
  "empty df = (rows df = [] \<or> columns df = [])"

fun is_number :: "dtype \<Rightarrow> bool" where
  "is_number Int64 = True"
| "is_number Float64 = True"
| "is_number Bool = False"
| "is_number Object = False"

text \<open>\<^verbatim>\<open>df.select_dtypes(include=[...])\<close>: the columns whose dtype is selected, all rows.\<close>

definition select_dtypes :: "(dtype \<Rightarrow> bool) \<Rightarrow> dataframe \<Rightarrow> dataframe" where
  "select_dtypes P df =
     \<lparr> columns = filter (\<lambda>c. P (snd c)) (columns df),
       rows = map (\<lambda>r. map snd (filter (\<lambda>cv. P (snd (fst cv))) (zip (columns df) r))) (rows df) \<rparr>"

text \<open>The cells of the column labelled \<open>c\<close>, top to bottom.\<close>

definition column_cells :: "dataframe \<Rightarrow> string \<Rightarrow> cell list" where
  "column_cells df c = List.map_filter (\<lambda>r. map_of (zip (column_names df) r) c) (rows df)"

text \<open>\<^verbatim>\<open>Series.nunique()\<close>: the number of distinct values, missing values not counted.\<close>

definition nunique :: "cell list \<Rightarrow> nat" where
  "nunique cs = length (remdups (filter (\<lambda>v. v \<noteq> NaN) cs))"

text \<open>
  Python's slice \<^verbatim>\<open>xs[:n]\<close>, which is what \<^verbatim>\<open>df.head(n)\<close> takes of the rows: the first
  \<open>n\<close> items for \<open>n \<ge> 0\<close>, all but the last \<open>-n\<close> items for \<open>n < 0\<close>.
\<close>

definition slice_to :: "int \<Rightarrow> 'a list \<Rightarrow> 'a list" where
  "slice_to n xs = (if 0 \<le> n then take (nat n) xs else take (length xs - nat (- n)) xs)"

fun cell_value :: "cell \<Rightarrow> pyval" where
  "cell_value NaN = PFloat ''NaN''"
| "cell_value (IntV i) = PInt i"
| "cell_value (FloatV f) = PFloat f"
| "cell_value (BoolV b) = PBool b"
| "cell_value (StrV s) = PStr s"

text \<open>\<^verbatim>\<open>df.to_dict(orient='records')\<close>: one dict per row, in row order.\<close>

definition to_records :: "dataframe \<Rightarrow> pyval list" where
  "to_records df = map (\<lambda>r. PDict (zip (column_names df) (map cell_value r))) (rows df)"

fun dtype_str :: "dtype \<Rightarrow> string" where
  "dtype_str Int64 = ''int64''"
| "dtype_str Float64 = ''float64''"
| "dtype_str Bool = ''bool''"
| "dtype_str Object = ''object''"

text \<open>\<^verbatim>\<open>{col: str(dtype) for col, dtype in df.dtypes.items()}\<close>\<close>

definition dtypes_dict :: "dataframe \<Rightarrow> pyval" where
  "dtypes_dict df = PDict (map (\<lambda>c. (fst c, PStr (dtype_str (snd c)))) (columns df))"

text \<open>\<^verbatim>\<open>df.isnull().sum().to_dict()\<close>\<close>

definition missing_values :: "dataframe \<Rightarrow> pyval" where
  "missing_values df =
     PDict (map (\<lambda>c. (c, PInt (int (length (filter (\<lambda>v. v = NaN) (column_cells df c))))))
                (column_names df))"

text \<open>\<^verbatim>\<open>df.head(n)\<close> for an integer \<open>n\<close>.\<close>

definition head :: "int \<Rightarrow> dataframe \<Rightarrow> dataframe" where
  "head n df = df\<lparr>rows := slice_to n (rows df)\<rparr>"

section \<open>The file system, the figure and the libraries\<close>

text \<open>
  The calls the Renderer makes on \<^verbatim>\<open>matplotlib.pyplot\<close> and \<^verbatim>\<open>seaborn\<close>, with the
  arguments the tool passes. \<open>Xticks_rotated\<close> is \<^verbatim>\<open>plt.xticks(rotation=45, ha='right')\<close>.
\<close>

datatype plt_call =
    Figure
  | Histplot pyval pyval
  | Scatterplot pyval pyval "pyval option"
  | Barplot pyval pyval
  | Plot pyval pyval
  | Heatmap pyval pyval pyval
  | Boxplot pyval pyval
  | Title string
  | Xlabel pyval
  | Ylabel pyval
  | Xticks_rotated
  | Tight_layout
  | Savefig string
  | Close

text \<open>
  What a call can see and change: the files (path to content), the paths that are
  directories, and the trace of plotting calls made so far in the process.
\<close>

record world =
  files :: "string \<Rightarrow> string option"
  dirs :: "string set"
  plt_calls :: "plt_call list"

text \<open>What \<^verbatim>\<open>eval\<close> can return: a \<^verbatim>\<open>DataFrame\<close>, a JSON-like value, or an object
  of some other class (named).\<close>

datatype eval_result = EvFrame dataframe | EvValue pyval | EvObject string

text \<open>
  The library computations the tools rely on. A reader is given the path and the content
  stored there, if any. \<open>py_repr\<close> is \<^verbatim>\<open>repr\<close>. \<open>os_makedirs\<close> raises or gives the
  directories that exist afterwards. \<open>plt_raises\<close> says whether a plotting call fails,
  given the data and the calls made before it.
\<close>

record pylib =
  json_loads :: "string \<Rightarrow> py_exc + pyval"
  json_dumps :: "pyval \<Rightarrow> py_exc + string"
  py_repr :: "pyval \<Rightarrow> string"
  os_path_exists_nonstr :: "pyval \<Rightarrow> py_exc + bool"
  os_makedirs :: "world \<Rightarrow> string \<Rightarrow> py_exc + string set"
  pd_read_csv :: "pyval \<Rightarrow> string option \<Rightarrow> py_exc + dataframe"
  pd_read_excel :: "pyval \<Rightarrow> string option \<Rightarrow> py_exc + dataframe"
  pd_read_json :: "pyval \<Rightarrow> string option \<Rightarrow> py_exc + dataframe"
  df_to_csv :: "dataframe \<Rightarrow> py_exc + string"
  pd_check_percentiles :: "pyval \<Rightarrow> py_exc option"
  pd_describe_column :: "pyval \<Rightarrow> dtype \<Rightarrow> cell list \<Rightarrow> pyval"
  pd_pearson :: "cell list \<Rightarrow> cell list \<Rightarrow> pyval"
  pd_value_counts :: "cell list \<Rightarrow> pyval"
  df_groupby_agg :: "dataframe \<Rightarrow> pyval \<Rightarrow> pyval \<Rightarrow> py_exc + dataframe"
  df_query :: "dataframe \<Rightarrow> pyval \<Rightarrow> world \<Rightarrow> (py_exc + dataframe) \<times> world"
  df_head_invalid :: "pyval \<Rightarrow> py_exc"
  df_getitem_invalid :: "pyval \<Rightarrow> py_exc"
  df_sort_values :: "dataframe \<Rightarrow> pyval \<Rightarrow> py_exc + dataframe"
  py_eval :: "pyval \<Rightarrow> dataframe \<Rightarrow> world \<Rightarrow> (py_exc + eval_result) \<times> world"
  plt_raises :: "dataframe \<Rightarrow> plt_call list \<Rightarrow> plt_call \<Rightarrow> py_exc option"
  plt_render :: "plt_call list \<Rightarrow> string"

text \<open>\<^verbatim>\<open>str(v)\<close>, as an f-string formats a value.\<close>

definition py_str :: "pylib \<Rightarrow> pyval \<Rightarrow> string" where
  "py_str lib v =
     (case v of
        PNone \<Rightarrow> ''None''
      | PBool b \<Rightarrow> (if b then ''True'' else ''False'')
      | PStr s \<Rightarrow> s
      | _ \<Rightarrow> py_repr lib v)"

text \<open>
  \<^verbatim>\<open>try: ... except Exception as e: return f"<prefix>{str(e)}"\<close>: an exception that is
  not an instance of \<^verbatim>\<open>Exception\<close> leaves the function. One that is such an instance is
  caught, and the handler calls \<^verbatim>\<open>str(e)\<close>: its text is returned behind the prefix, and
  if it raises, that exception leaves the function, there being no handler around the
  handler.
\<close>

definition except_Exception ::
  "string \<Rightarrow> (py_exc + string) \<times> world \<Rightarrow> (py_exc + string) \<times> world" where
  "except_Exception prefix r =
     (case r of
        (Inr s, w) \<Rightarrow> (Inr s, w)
      | (Inl e, w) \<Rightarrow>
          if isinstance_Exception e then
            (case exc_str e of
               Inr msg \<Rightarrow> (Inr (prefix @ msg), w)
             | Inl raised \<Rightarrow> (Inl raised, w))
          else (Inl e, w))"

text \<open>Writing a file: a path that is a directory cannot be opened for writing.\<close>

definition write_file :: "pylib \<Rightarrow> world \<Rightarrow> string \<Rightarrow> string \<Rightarrow> py_exc + world" where
  "write_file lib w path content =
     (if path \<in> dirs w then
        Inl (PyExc (OtherError ''IsADirectoryError'')
               (''[Errno 21] Is a directory: '' @ py_repr lib (PStr path)))
      else Inr (w\<lparr>files := (files w)(path \<mapsto> content)\<rparr>))"

section \<open>DataFrameLoadTool\<close>

text \<open>Line 25: \<^verbatim>\<open>file_path.split('.')[-1].lower()\<close>\<close>

definition file_ext :: "string \<Rightarrow> string" where
  "file_ext file_path = lower (last (split_str CHR ''.'' file_path))"

text \<open>Lines 41 to 49.\<close>

definition info_dict :: "dataframe \<Rightarrow> string \<Rightarrow> string \<Rightarrow> pyval" where
  "info_dict df file_path temp_path =
     PDict [(''shape'', shape df),
            (''columns'', PList (map PStr (column_names df))),
            (''dtypes'', dtypes_dict df),
            (''missing_values'', missing_values df),
            (''sample_data'', PList (to_records (head 5 df))),
            (''file_path'', PStr file_path),
            (''temp_path'', PStr temp_path)]"

text \<open>Lines 36 to 51: write the staging file, then build and serialise the summary.\<close>

definition stage_and_summarise ::
  "pylib \<Rightarrow> world \<Rightarrow> string \<Rightarrow> dataframe \<Rightarrow> (py_exc + string) \<times> world" where
  "stage_and_summarise lib w file_path df =
     (let temp_path = ''temp_dataframe.csv'' in
      case df_to_csv lib df of
        Inl e \<Rightarrow> (Inl e, w)
      | Inr text \<Rightarrow>
          (case write_file lib w temp_path text of
             Inl e \<Rightarrow> (Inl e, w)
           | Inr w' \<Rightarrow>
               (case json_dumps lib (info_dict df file_path temp_path) of
                  Inl e \<Rightarrow> (Inl e, w')
                | Inr s \<Rightarrow> (Inr s, w'))))"

text \<open>Lines 27 to 34, what follows a reader's result.\<close>

definition loaded ::
  "pylib \<Rightarrow> world \<Rightarrow> string \<Rightarrow> py_exc + dataframe \<Rightarrow> (py_exc + string) \<times> world" where
  "loaded lib w file_path r =
     (case r of Inl e \<Rightarrow> (Inl e, w) | Inr df \<Rightarrow> stage_and_summarise lib w file_path df)"

definition DataFrameLoadTool_body ::
  "pylib \<Rightarrow> world \<Rightarrow> string \<Rightarrow> (py_exc + string) \<times> world" where
  "DataFrameLoadTool_body lib w file_path =
     (if file_ext file_path = ''csv'' then
        loaded lib w file_path (pd_read_csv lib (PStr file_path) (files w file_path))
      else if file_ext file_path \<in> set [''xls'', ''xlsx''] then
        loaded lib w file_path (pd_read_excel lib (PStr file_path) (files w file_path))
      else if file_ext file_path = ''json'' then
        loaded lib w file_path (pd_read_json lib (PStr file_path) (files w file_path))
      else (Inr (''Unsupported file format: '' @ file_ext file_path), w))"

definition DataFrameLoadTool_run ::
  "pylib \<Rightarrow> world \<Rightarrow> string \<Rightarrow> (py_exc + string) \<times> world" where
  "DataFrameLoadTool_run lib w file_path =
     except_Exception ''Error loading dataset: '' (DataFrameLoadTool_body lib w file_path)"

section \<open>DataFrameAnalysisTool\<close>

text \<open>
  \<^verbatim>\<open>os.path.exists(temp_path)\<close> and \<^verbatim>\<open>pd.read_csv(temp_path)\<close>. For a string the file
  system decides: the path exists when it is a file or a directory. What happens for
  another value (a number is a file descriptor, a list is a type error) is left to the
  library.
\<close>

definition os_path_exists :: "pylib \<Rightarrow> world \<Rightarrow> pyval \<Rightarrow> py_exc + bool" where
  "os_path_exists lib w path =
     (case path of
        PStr p \<Rightarrow> Inr (files w p \<noteq> None \<or> p \<in> dirs w)
      | _ \<Rightarrow> os_path_exists_nonstr lib path)"

definition read_csv :: "pylib \<Rightarrow> world \<Rightarrow> pyval \<Rightarrow> py_exc + dataframe" where
  "read_csv lib w path =
     pd_read_csv lib path (case path of PStr p \<Rightarrow> files w p | _ \<Rightarrow> None)"

text \<open>
  \<^verbatim>\<open>df.describe(percentiles=...).to_dict()\<close>. With no \<^verbatim>\<open>include\<close> argument pandas
  describes the numeric columns when there is one, and every column otherwise.
\<close>

definition describe :: "pylib \<Rightarrow> pyval \<Rightarrow> dataframe \<Rightarrow> py_exc + pyval" where
  "describe lib percentiles df =
     (case pd_check_percentiles lib percentiles of
        Some e \<Rightarrow> Inl e
      | None \<Rightarrow>
          if columns df = [] then
            Inl (PyExc ValueError ''Cannot describe a DataFrame without columns'')
          else
            (let numeric = select_dtypes is_number df;
                 data = (if columns numeric = [] then df else numeric)
             in Inr (PDict (map (\<lambda>c. (fst c, pd_describe_column lib percentiles (snd c)
                                               (column_cells data (fst c))))
                                (columns data)))))"

text \<open>\<^verbatim>\<open>numeric_df.corr().to_dict()\<close>: column to row label to coefficient.\<close>

definition corr :: "pylib \<Rightarrow> dataframe \<Rightarrow> pyval" where
  "corr lib numeric_df =
     PDict (map (\<lambda>c. (c, PDict (map (\<lambda>r. (r, pd_pearson lib (column_cells numeric_df r)
                                                          (column_cells numeric_df c)))
                                   (column_names numeric_df))))
                (column_names numeric_df))"

text \<open>Lines 97 to 99.\<close>

definition op_describe ::
  "pylib \<Rightarrow> world \<Rightarrow> (string \<times> pyval) list \<Rightarrow> dataframe \<Rightarrow> (py_exc + string) \<times> world" where
  "op_describe lib w params df =
     (case describe lib (dict_get params ''percentiles''
                           (PList [PFloat ''0.25'', PFloat ''0.5'', PFloat ''0.75''])) df of
        Inl e \<Rightarrow> (Inl e, w)
      | Inr result \<Rightarrow> (json_dumps lib result, w))"

text \<open>Lines 101 to 108.\<close>

definition op_correlation ::
  "pylib \<Rightarrow> world \<Rightarrow> (string \<times> pyval) list \<Rightarrow> dataframe \<Rightarrow> (py_exc + string) \<times> world" where
  "op_correlation lib w params df =
     (let numeric_df = select_dtypes is_number df in
      if empty numeric_df then (Inr ''No numeric columns found for correlation analysis'', w)
      else (json_dumps lib (corr lib numeric_df), w))"

text \<open>Lines 110 to 121. \<^verbatim>\<open>params["columns"]\<close> is read after the membership test, so it
  cannot raise.\<close>

definition op_groupby ::
  "pylib \<Rightarrow> world \<Rightarrow> (string \<times> pyval) list \<Rightarrow> dataframe \<Rightarrow> (py_exc + string) \<times> world" where
  "op_groupby lib w params df =
     (if \<not> dict_has params ''columns'' then
        (Inr ''Error: 'columns' parameter required for groupby operation'', w)
      else
        (let groupby_cols = dict_get params ''columns'' PNone;
             agg_func = dict_get params ''aggregation'' (PStr ''mean'');
             groupby_cols = (case groupby_cols of PStr s \<Rightarrow> PList [PStr s] | _ \<Rightarrow> groupby_cols)
         in case df_groupby_agg lib df groupby_cols agg_func of
              Inl e \<Rightarrow> (Inl e, w)
            | Inr result \<Rightarrow> (json_dumps lib (PList (to_records result)), w)))"

text \<open>
  \<^verbatim>\<open>filtered_df.head(limit)\<close> with the limit as the request gives it: an integer slices,
  \<^verbatim>\<open>None\<close> keeps every row, anything else is refused by pandas.
\<close>

definition df_head :: "pylib \<Rightarrow> pyval \<Rightarrow> dataframe \<Rightarrow> py_exc + dataframe" where
  "df_head lib n df =
     (case n of
        PInt k \<Rightarrow> Inr (head k df)
      | PNone \<Rightarrow> Inr df
      | _ \<Rightarrow> Inl (df_head_invalid lib n))"

text \<open>Lines 128 to 131.\<close>

definition query_result :: "dataframe \<Rightarrow> dataframe \<Rightarrow> pyval" where
  "query_result filtered_df shown =
     PDict [(''shape'', shape filtered_df), (''data'', PList (to_records shown))]"

text \<open>
  Lines 123 to 132. The filter is an expression that pandas evaluates; a name behind
  \<^verbatim>\<open>@\<close> in it is looked up in the scope of the tool, where \<^verbatim>\<open>pd\<close> and \<^verbatim>\<open>os\<close> are, and
  can be called. So \<open>df_query\<close>, like \<open>py_eval\<close>, is given the process state and
  returns it.
\<close>

definition op_query ::
  "pylib \<Rightarrow> world \<Rightarrow> (string \<times> pyval) list \<Rightarrow> dataframe \<Rightarrow> (py_exc + string) \<times> world" where
  "op_query lib w params df =
     (if \<not> dict_has params ''filter'' then
        (Inr ''Error: 'filter' parameter required for query operation'', w)
      else
        (case df_query lib df (dict_get params ''filter'' PNone) w of
           (Inl e, w') \<Rightarrow> (Inl e, w')
         | (Inr filtered_df, w') \<Rightarrow>
             (case df_head lib (dict_get params ''limit'' (PInt 10)) filtered_df of
                Inl e \<Rightarrow> (Inl e, w')
              | Inr shown \<Rightarrow> (json_dumps lib (query_result filtered_df shown), w'))))"

text \<open>Lines 134 to 146.\<close>

definition op_summary ::
  "pylib \<Rightarrow> world \<Rightarrow> (string \<times> pyval) list \<Rightarrow> dataframe \<Rightarrow> (py_exc + string) \<times> world" where
  "op_summary lib w params df =
     (case describe lib PNone df of
        Inl e \<Rightarrow> (Inl e, w)
      | Inr numeric_summary \<Rightarrow>
          (json_dumps lib
             (PDict [(''shape'', shape df),
                     (''dtypes'', dtypes_dict df),
                     (''missing_values'', missing_values df),
                     (''numeric_summary'', numeric_summary),
                     (''categorical_summary'',
                        PDict (map (\<lambda>c. (c, pd_value_counts lib (column_cells df c)))
                                   (column_names (select_dtypes (\<lambda>t. t = Object) df))))]),
           w))"

text \<open>Lines 148 to 160. The expression is evaluated by Python with the process in reach:
  it may read and write files, raise anything, or return any object.\<close>

definition op_custom ::
  "pylib \<Rightarrow> world \<Rightarrow> (string \<times> pyval) list \<Rightarrow> dataframe \<Rightarrow> (py_exc + string) \<times> world" where
  "op_custom lib w params df =
     (if \<not> dict_has params ''code'' then
        (Inr ''Error: 'code' parameter required for custom operation'', w)
      else
        (case py_eval lib (dict_get params ''code'' PNone) df w of
           (Inl e, w') \<Rightarrow> (Inl e, w')
         | (Inr (EvFrame result), w') \<Rightarrow> (json_dumps lib (PList (to_records result)), w')
         | (Inr (EvValue result), w') \<Rightarrow> (json_dumps lib result, w')
         | (Inr (EvObject cls), w') \<Rightarrow>
             (Inl (PyExc TypeError (''Object of type '' @ cls @ '' is not JSON serializable'')),
              w')))"

text \<open>Lines 97 to 163: the chain of comparisons on \<^verbatim>\<open>operation\<close>.\<close>

definition analysis_operation ::
  "pylib \<Rightarrow> world \<Rightarrow> pyval \<Rightarrow> (string \<times> pyval) list \<Rightarrow> dataframe
     \<Rightarrow> (py_exc + string) \<times> world" where
  "analysis_operation lib w operation params df =
     (if operation = PStr ''describe'' then op_describe lib w params df
      else if operation = PStr ''correlation'' then op_correlation lib w params df
      else if operation = PStr ''groupby'' then op_groupby lib w params df
      else if operation = PStr ''query'' then op_query lib w params df
      else if operation = PStr ''summary'' then op_summary lib w params df
      else if operation = PStr ''custom'' then op_custom lib w params df
      else (Inr (''Error: Unsupported operation '' @ quoted (py_str lib operation)), w))"

text \<open>Lines 89 to 94 and the dispatch, once \<^verbatim>\<open>operation\<close> and \<^verbatim>\<open>params\<close> are read.\<close>

definition analysis_staged ::
  "pylib \<Rightarrow> world \<Rightarrow> pyval \<Rightarrow> (string \<times> pyval) list \<Rightarrow> (py_exc + string) \<times> world" where
  "analysis_staged lib w operation params =
     (let temp_path = dict_get params ''temp_path'' (PStr ''temp_dataframe.csv'') in
      case os_path_exists lib w temp_path of
        Inl e \<Rightarrow> (Inl e, w)
      | Inr found \<Rightarrow>
          if \<not> found then
            (Inr (''Error: Temporary DataFrame file not found at '' @ py_str lib temp_path), w)
          else
            (case read_csv lib w temp_path of
               Inl e \<Rightarrow> (Inl e, w)
             | Inr df \<Rightarrow> analysis_operation lib w operation params df))"

text \<open>Lines 85 to 87: \<^verbatim>\<open>.get\<close> exists on a dict only.\<close>

definition DataFrameAnalysisTool_body ::
  "pylib \<Rightarrow> world \<Rightarrow> string \<Rightarrow> (py_exc + string) \<times> world" where
  "DataFrameAnalysisTool_body lib w query =
     (case json_loads lib query of
        Inl e \<Rightarrow> (Inl e, w)
      | Inr (PDict query_dict) \<Rightarrow>
          (let operation = dict_get query_dict ''operation'' PNone;
               params = dict_get query_dict ''parameters'' (PDict [])
           in case params of
                PDict ps \<Rightarrow> analysis_staged lib w operation ps
              | _ \<Rightarrow> (Inl (no_attribute_get params), w))
      | Inr v \<Rightarrow> (Inl (no_attribute_get v), w))"

definition DataFrameAnalysisTool_run ::
  "pylib \<Rightarrow> world \<Rightarrow> string \<Rightarrow> (py_exc + string) \<times> world" where
  "DataFrameAnalysisTool_run lib w query =
     except_Exception ''Error during DataFrame analysis: ''
       (DataFrameAnalysisTool_body lib w query)"

section \<open>DataVisualizationTool\<close>

text \<open>
  One plotting call: it raises, or it is added to the trace; \<^verbatim>\<open>plt.savefig\<close> also writes
  the rendered figure to its path. \<open>plt_seq\<close> makes calls in order up to the first that
  raises.
\<close>

definition plt :: "pylib \<Rightarrow> dataframe \<Rightarrow> plt_call \<Rightarrow> world \<Rightarrow> py_exc option \<times> world" where
  "plt lib df c w =
     (case plt_raises lib df (plt_calls w) c of
        Some e \<Rightarrow> (Some e, w)
      | None \<Rightarrow>
          (case c of
             Savefig p \<Rightarrow>
               (case write_file lib w p (plt_render lib (plt_calls w)) of
                  Inl e \<Rightarrow> (Some e, w)
                | Inr w' \<Rightarrow> (None, w'\<lparr>plt_calls := plt_calls w @ [c]\<rparr>))
           | _ \<Rightarrow> (None, w\<lparr>plt_calls := plt_calls w @ [c]\<rparr>)))"

fun plt_seq :: "pylib \<Rightarrow> dataframe \<Rightarrow> plt_call list \<Rightarrow> world \<Rightarrow> py_exc option \<times> world" where
  "plt_seq lib df [] w = (None, w)"
| "plt_seq lib df (c # cs) w =
     (case plt lib df c w of
        (Some e, w') \<Rightarrow> (Some e, w')
      | (None, w') \<Rightarrow> plt_seq lib df cs w')"

text \<open>
  A branch of the chain on \<^verbatim>\<open>plot_type\<close> raises (\<open>Inl\<close>), returns a text at once
  (\<open>Inr (Some s)\<close>), or falls through to the saving of the figure (\<open>Inr None\<close>).
\<close>

definition drawn :: "py_exc option \<times> world \<Rightarrow> (py_exc + string option) \<times> world" where
  "drawn r = (case r of (Some e, w) \<Rightarrow> (Inl e, w) | (None, w) \<Rightarrow> (Inr None, w))"

text \<open>\<^verbatim>\<open>hue in df.columns\<close>: a list or a dict cannot be hashed; a value that is not a
  string is no label of a frame read from delimited text.\<close>

definition in_columns :: "dataframe \<Rightarrow> pyval \<Rightarrow> py_exc + bool" where
  "in_columns df v =
     (case v of
        PStr c \<Rightarrow> Inr (c \<in> set (column_names df))
      | PList xs \<Rightarrow> Inl (PyExc TypeError (''unhashable type: '' @ quoted ''list''))
      | PDict d \<Rightarrow> Inl (PyExc TypeError (''unhashable type: '' @ quoted ''dict''))
      | _ \<Rightarrow> Inr False)"

text \<open>
  \<^verbatim>\<open>df[params["x"] ].nunique() > 5\<close>. A string selects the column of that label or raises
  \<^verbatim>\<open>KeyError\<close>; for any other key either the selection or the truth test of the resulting
  \<^verbatim>\<open>Series\<close> raises, and the library says which exception it is.
\<close>

definition nunique_gt_5 :: "pylib \<Rightarrow> dataframe \<Rightarrow> pyval \<Rightarrow> py_exc + bool" where
  "nunique_gt_5 lib df key =
     (case key of
        PStr c \<Rightarrow>
          if c \<in> set (column_names df) then Inr (5 < nunique (column_cells df c))
          else Inl (PyExc KeyError (py_repr lib key))
      | _ \<Rightarrow> Inl (df_getitem_invalid lib key))"

text \<open>Lines 214 to 221.\<close>

definition plot_histogram ::
  "pylib \<Rightarrow> world \<Rightarrow> (string \<times> pyval) list \<Rightarrow> dataframe \<Rightarrow> (py_exc + string option) \<times> world" where
  "plot_histogram lib w params df =
     (if \<not> dict_has params ''column'' then
        (Inr (Some ''Error: 'column' parameter required for histogram''), w)
      else
        (let column = dict_get params ''column'' PNone in
         drawn (plt_seq lib df
                  [Histplot column (dict_get params ''kde'' (PBool False)),
                   Title (''Histogram of '' @ py_str lib column),
                   Xlabel column,
                   Ylabel (PStr ''Frequency'')] w)))"

text \<open>Lines 223 to 235.\<close>

definition plot_scatter ::
  "pylib \<Rightarrow> world \<Rightarrow> (string \<times> pyval) list \<Rightarrow> dataframe \<Rightarrow> (py_exc + string option) \<times> world" where
  "plot_scatter lib w params df =
     (if \<not> dict_has params ''x'' \<or> \<not> dict_has params ''y'' then
        (Inr (Some ''Error: 'x' and 'y' parameters required for scatter plot''), w)
      else
        (let x = dict_get params ''x'' PNone;
             y = dict_get params ''y'' PNone;
             hue = dict_get params ''hue'' PNone
         in case (if py_truthy hue then in_columns df hue else Inr False) of
              Inl e \<Rightarrow> (Inl e, w)
            | Inr with_hue \<Rightarrow>
                drawn (plt_seq lib df
                         [Scatterplot x y (if with_hue then Some hue else None),
                          Title (''Scatter Plot: '' @ py_str lib y @ '' vs '' @ py_str lib x),
                          Xlabel x,
                          Ylabel y] w)))"

text \<open>Lines 237 to 248.\<close>

definition plot_bar ::
  "pylib \<Rightarrow> world \<Rightarrow> (string \<times> pyval) list \<Rightarrow> dataframe \<Rightarrow> (py_exc + string option) \<times> world" where
  "plot_bar lib w params df =
     (if \<not> dict_has params ''x'' \<or> \<not> dict_has params ''y'' then
        (Inr (Some ''Error: 'x' and 'y' parameters required for bar chart''), w)
      else
        (let x = dict_get params ''x'' PNone;
             y = dict_get params ''y'' PNone
         in case plt_seq lib df
                   [Barplot x y,
                    Title (''Bar Chart: '' @ py_str lib y @ '' by '' @ py_str lib x),
                    Xlabel x,
                    Ylabel y] w of
              (Some e, w') \<Rightarrow> (Inl e, w')
            | (None, w') \<Rightarrow>
                (case nunique_gt_5 lib df x of
                   Inl e \<Rightarrow> (Inl e, w')
                 | Inr many \<Rightarrow>
                     if many then drawn (plt_seq lib df [Xticks_rotated] w')
                     else (Inr None, w'))))"

text \<open>Lines 250 to 260. The columns are taken from the sorted frame inside the call.\<close>

definition plot_line ::
  "pylib \<Rightarrow> world \<Rightarrow> (string \<times> pyval) list \<Rightarrow> dataframe \<Rightarrow> (py_exc + string option) \<times> world" where
  "plot_line lib w params df =
     (if \<not> dict_has params ''x'' \<or> \<not> dict_has params ''y'' then
        (Inr (Some ''Error: 'x' and 'y' parameters required for line chart''), w)
      else
        (let x = dict_get params ''x'' PNone;
             y = dict_get params ''y'' PNone
         in case df_sort_values lib df x of
              Inl e \<Rightarrow> (Inl e, w)
            | Inr plot_df \<Rightarrow>
                drawn (plt_seq lib plot_df
                         [Plot x y,
                          Title (''Line Chart: '' @ py_str lib y @ '' vs '' @ py_str lib x),
                          Xlabel x,
                          Ylabel y] w)))"

text \<open>Lines 262 to 276.\<close>

definition plot_correlation_heatmap ::
  "pylib \<Rightarrow> world \<Rightarrow> (string \<times> pyval) list \<Rightarrow> dataframe \<Rightarrow> (py_exc + string option) \<times> world" where
  "plot_correlation_heatmap lib w params df =
     (let numeric_df = select_dtypes is_number df in
      if empty numeric_df then
        (Inr (Some ''No numeric columns found for correlation heatmap''), w)
      else
        drawn (plt_seq lib df
                 [Heatmap (corr lib numeric_df)
                          (dict_get params ''show_values'' (PBool True))
                          (dict_get params ''colormap'' (PStr ''coolwarm'')),
                  Title ''Correlation Matrix Heatmap''] w))"

text \<open>Lines 278 to 283.\<close>

definition plot_boxplot ::
  "pylib \<Rightarrow> world \<Rightarrow> (string \<times> pyval) list \<Rightarrow> dataframe \<Rightarrow> (py_exc + string option) \<times> world" where
  "plot_boxplot lib w params df =
     (if \<not> dict_has params ''column'' then
        (Inr (Some ''Error: 'column' parameter required for boxplot''), w)
      else
        (let column = dict_get params ''column'' PNone in
         drawn (plt_seq lib df
                  [Boxplot column (dict_get params ''group_by'' PNone),
                   Title (''Boxplot of '' @ py_str lib column)] w)))"

text \<open>Lines 214 to 286: the chain of comparisons on \<^verbatim>\<open>plot_type\<close>.\<close>

definition render_plot ::
  "pylib \<Rightarrow> world \<Rightarrow> pyval \<Rightarrow> (string \<times> pyval) list \<Rightarrow> dataframe
     \<Rightarrow> (py_exc + string option) \<times> world" where
  "render_plot lib w plot_type params df =
     (if plot_type = PStr ''histogram'' then plot_histogram lib w params df
      else if plot_type = PStr ''scatter'' then plot_scatter lib w params df
      else if plot_type = PStr ''bar'' then plot_bar lib w params df
      else if plot_type = PStr ''line'' then plot_line lib w params df
      else if plot_type = PStr ''correlation_heatmap'' then
        plot_correlation_heatmap lib w params df
      else if plot_type = PStr ''boxplot'' then plot_boxplot lib w params df
      else (Inr (Some (''Error: Unsupported plot type '' @ quoted (py_str lib plot_type))), w))"

text \<open>Lines 288 to 295. \<^verbatim>\<open>os.path.dirname\<close> refuses a value that is not a path.\<close>

definition save_figure ::
  "pylib \<Rightarrow> world \<Rightarrow> dataframe \<Rightarrow> pyval \<Rightarrow> (py_exc + string) \<times> world" where
  "save_figure lib w df save_path =
     (case save_path of
        PStr sp \<Rightarrow>
          (case os_makedirs lib w (if dirname sp = [] then ''.'' else dirname sp) of
             Inl e \<Rightarrow> (Inl e, w)
           | Inr made \<Rightarrow>
               (case plt_seq lib df [Tight_layout, Savefig sp, Close] (w\<lparr>dirs := made\<rparr>) of
                  (Some e, w') \<Rightarrow> (Inl e, w')
                | (None, w') \<Rightarrow> (Inr (''Visualization saved to '' @ sp), w')))
      | _ \<Rightarrow>
          (Inl (PyExc TypeError (''expected str, bytes or os.PathLike object, not ''
                                  @ type_name save_path)), w))"

text \<open>Lines 203 to 295, once \<^verbatim>\<open>plot_type\<close>, \<^verbatim>\<open>params\<close> and \<^verbatim>\<open>save_path\<close> are read.\<close>

definition visualization_staged ::
  "pylib \<Rightarrow> world \<Rightarrow> pyval \<Rightarrow> (string \<times> pyval) list \<Rightarrow> pyval \<Rightarrow> (py_exc + string) \<times> world" where
  "visualization_staged lib w plot_type params save_path =
     (let temp_path = dict_get params ''temp_path'' (PStr ''temp_dataframe.csv'') in
      case os_path_exists lib w temp_path of
        Inl e \<Rightarrow> (Inl e, w)
      | Inr found \<Rightarrow>
          if \<not> found then
            (Inr (''Error: Temporary DataFrame file not found at '' @ py_str lib temp_path), w)
          else
            (case read_csv lib w temp_path of
               Inl e \<Rightarrow> (Inl e, w)
             | Inr df \<Rightarrow>
                 (case plt lib df Figure w of
                    (Some e, w1) \<Rightarrow> (Inl e, w1)
                  | (None, w1) \<Rightarrow>
                      (case render_plot lib w1 plot_type params df of
                         (Inl e, w2) \<Rightarrow> (Inl e, w2)
                       | (Inr (Some s), w2) \<Rightarrow> (Inr s, w2)
                       | (Inr None, w2) \<Rightarrow> save_figure lib w2 df save_path))))"

text \<open>Lines 198 to 201.\<close>

definition DataVisualizationTool_body ::
  "pylib \<Rightarrow> world \<Rightarrow> string \<Rightarrow> (py_exc + string) \<times> world" where
  "DataVisualizationTool_body lib w query =
     (case json_loads lib query of
        Inl e \<Rightarrow> (Inl e, w)
      | Inr (PDict query_dict) \<Rightarrow>
          (let plot_type = dict_get query_dict ''plot_type'' PNone;
               params = dict_get query_dict ''parameters'' (PDict []);
               save_path = dict_get query_dict ''save_path'' (PStr ''visualization.png'')
           in case params of
                PDict ps \<Rightarrow> visualization_staged lib w plot_type ps save_path
              | _ \<Rightarrow> (Inl (no_attribute_get params), w))
      | Inr v \<Rightarrow> (Inl (no_attribute_get v), w))"

definition DataVisualizationTool_run ::
  "pylib \<Rightarrow> world \<Rightarrow> string \<Rightarrow> (py_exc + string) \<times> world" where
  "DataVisualizationTool_run lib w query =
     except_Exception ''Error creating visualization: ''
       (DataVisualizationTool_body lib w query)"

section \<open>Vocabulary of the specification\<close>

text \<open>
  The request names a staging path (or leaves the default), a file is stored there, and
  pandas reads it as \<open>df\<close>: \<open>df\<close> is the staged dataset of the call.
\<close>

definition staged :: "pylib \<Rightarrow> world \<Rightarrow> (string \<times> pyval) list \<Rightarrow> dataframe \<Rightarrow> bool" where
  "staged lib w params df =
     (case dict_get params ''temp_path'' (PStr ''temp_dataframe.csv'') of
        PStr p \<Rightarrow>
          (case files w p of
             Some text \<Rightarrow> pd_read_csv lib (PStr p) (Some text) = Inr df
           | None \<Rightarrow> False)
      | _ \<Rightarrow> False)"

text \<open>Two file systems hold the same thing at the staging path of the request.\<close>

definition same_staging :: "(string \<times> pyval) list \<Rightarrow> world \<Rightarrow> world \<Rightarrow> bool" where
  "same_staging params w1 w2 =
     (case dict_get params ''temp_path'' (PStr ''temp_dataframe.csv'') of
        PStr p \<Rightarrow> files w1 p = files w2 p \<and> (p \<in> dirs w1 \<longleftrightarrow> p \<in> dirs w2)
      | _ \<Rightarrow> True)"

text \<open>The labels of the columns whose inferred type is numeric.\<close>

definition numeric_columns :: "dataframe \<Rightarrow> string list" where
  "numeric_columns df = map fst (filter (\<lambda>c. is_number (snd c)) (columns df))"

text \<open>A dict with exactly the given keys, and a square matrix over the given labels
  (a dict of such dicts).\<close>

definition table_over :: "string list \<Rightarrow> pyval \<Rightarrow> bool" where
  "table_over names v = (case v of PDict kvs \<Rightarrow> map fst kvs = names | _ \<Rightarrow> False)"

definition matrix_over :: "string list \<Rightarrow> pyval \<Rightarrow> bool" where
  "matrix_over names v =
     (case v of
        PDict kvs \<Rightarrow> map fst kvs = names \<and> list_all (\<lambda>kv. table_over names (snd kv)) kvs
      | _ \<Rightarrow> False)"

text \<open>The required parameters of each plot kind, from the table of section 4.3 of the
  specification.\<close>

definition spec_required_params :: "string \<Rightarrow> string list" where
  "spec_required_params kind =
     (if kind = ''histogram'' then [''column'']
      else if kind = ''scatter'' then [''x'', ''y'']
      else if kind = ''bar'' then [''x'', ''y'']
      else if kind = ''line'' then [''x'', ''y'']
      else if kind = ''boxplot'' then [''column'']
      else [])"

text \<open>The plotting calls a run adds to the trace.\<close>

definition calls_added :: "world \<Rightarrow> world \<Rightarrow> plt_call list" where
  "calls_added w w' = drop (length (plt_calls w)) (plt_calls w')"

section \<open>A small library instance for the examples\<close>

text \<open>
  The examples below run the tools on concrete requests. They need one concrete library:
  a serialiser without indentation or escaping, a writer of comma-separated lines, and
  readers, an expression evaluator and statistics that are tables over the few inputs
  the examples use. No plotting call fails in it.
\<close>

fun show_nat :: "nat \<Rightarrow> string" where
  "show_nat n =
     (if n < 10 then [''0123456789'' ! n]
      else show_nat (n div 10) @ [''0123456789'' ! (n mod 10)])"

definition show_int :: "int \<Rightarrow> string" where
  "show_int i = (if i < 0 then ''-'' @ show_nat (nat (- i)) else show_nat (nat i))"

fun join :: "string \<Rightarrow> string list \<Rightarrow> string" where
  "join sep [] = []"
| "join sep [s] = s"
| "join sep (s # t # ts) = s @ sep @ join sep (t # ts)"

fun show_pyval :: "pyval \<Rightarrow> string" where
  "show_pyval PNone = ''null''"
| "show_pyval (PBool b) = (if b then ''true'' else ''false'')"
| "show_pyval (PInt i) = show_int i"
| "show_pyval (PFloat f) = f"
| "show_pyval (PStr s) = [CHR 0x22] @ s @ [CHR 0x22]"
| "show_pyval (PList xs) = ''['' @ join '', '' (map show_pyval xs) @ '']''"
| "show_pyval (PDict d) =
     ''{'' @ join '', '' (map (\<lambda>kv. [CHR 0x22] @ fst kv @ [CHR 0x22] @ '': ''
                                     @ show_pyval (snd kv)) d) @ ''}''"

definition py_repr0 :: "pyval \<Rightarrow> string" where
  "py_repr0 v = (case v of PStr s \<Rightarrow> quoted s | _ \<Rightarrow> show_pyval v)"

fun show_cell :: "cell \<Rightarrow> string" where
  "show_cell NaN = []"
| "show_cell (IntV i) = show_int i"
| "show_cell (FloatV f) = f"
| "show_cell (BoolV b) = (if b then ''True'' else ''False'')"
| "show_cell (StrV s) = s"

definition to_csv0 :: "dataframe \<Rightarrow> py_exc + string" where
  "to_csv0 df =
     Inr (concat (map (\<lambda>line. line @ [CHR 0x0A])
                      (join '','' (column_names df)
                       # map (\<lambda>r. join '','' (map show_cell r)) (rows df))))"

definition df_AB :: dataframe where
  "df_AB = \<lparr> columns = [(''A'', Int64), (''B'', Object)],
             rows = [ [IntV 1, StrV ''x''], [IntV 2, StrV ''y''], [IntV 3, StrV ''z''] ] \<rparr>"

definition df_B :: dataframe where
  "df_B = \<lparr> columns = [(''B'', Object)],
            rows = [ [StrV ''x''], [StrV ''y''], [StrV ''z''] ] \<rparr>"

definition df_six :: dataframe where
  "df_six = \<lparr> columns = [(''k'', Object), (''v'', Int64)],
              rows = [ [StrV ''a'', IntV 1], [StrV ''b'', IntV 2], [StrV ''c'', IntV 3],
                      [StrV ''d'', IntV 4], [StrV ''e'', IntV 5], [StrV ''f'', IntV 6] ] \<rparr>"

definition df_five :: dataframe where
  "df_five = \<lparr> columns = [(''k'', Object), (''v'', Int64)],
               rows = [ [StrV ''a'', IntV 1], [StrV ''b'', IntV 2], [StrV ''c'', IntV 3],
                       [StrV ''d'', IntV 4], [StrV ''e'', IntV 5], [StrV ''a'', IntV 6] ] \<rparr>"

definition csv_AB :: string where
  "csv_AB = ''A,B'' @ [CHR 0x0A] @ ''1,x'' @ [CHR 0x0A] @ ''2,y'' @ [CHR 0x0A]
            @ ''3,z'' @ [CHR 0x0A]"

definition csv_B :: string where
  "csv_B = ''B'' @ [CHR 0x0A] @ ''x'' @ [CHR 0x0A] @ ''y'' @ [CHR 0x0A] @ ''z'' @ [CHR 0x0A]"

definition csv_six :: string where
  "csv_six = ''k,v'' @ [CHR 0x0A] @ ''a,1'' @ [CHR 0x0A] @ ''b,2'' @ [CHR 0x0A]
             @ ''c,3'' @ [CHR 0x0A] @ ''d,4'' @ [CHR 0x0A] @ ''e,5'' @ [CHR 0x0A]
             @ ''f,6'' @ [CHR 0x0A]"

definition csv_five :: string where
  "csv_five = ''k,v'' @ [CHR 0x0A] @ ''a,1'' @ [CHR 0x0A] @ ''b,2'' @ [CHR 0x0A]
              @ ''c,3'' @ [CHR 0x0A] @ ''d,4'' @ [CHR 0x0A] @ ''e,5'' @ [CHR 0x0A]
              @ ''a,6'' @ [CHR 0x0A]"

definition read_csv0 :: "pyval \<Rightarrow> string option \<Rightarrow> py_exc + dataframe" where
  "read_csv0 path content =
     (case content of
        None \<Rightarrow>
          Inl (PyExc FileNotFoundError (''[Errno 2] No such file or directory: '' @ py_repr0 path))
      | Some text \<Rightarrow>
          if text = csv_AB then Inr df_AB
          else if text = csv_B then Inr df_B
          else if text = csv_six then Inr df_six
          else if text = csv_five then Inr df_five
          else Inl (PyExc (OtherError ''ParserError'') ''Error tokenizing data''))"

definition read_other0 :: "pyval \<Rightarrow> string option \<Rightarrow> py_exc + dataframe" where
  "read_other0 path content =
     (case content of
        None \<Rightarrow>
          Inl (PyExc FileNotFoundError (''[Errno 2] No such file or directory: '' @ py_repr0 path))
      | Some text \<Rightarrow> Inl (PyExc ValueError ''File format cannot be determined''))"

text \<open>One output row per distinct combination of the grouping columns, which must be
  given as a list of labels.\<close>

definition groupby0 :: "dataframe \<Rightarrow> pyval \<Rightarrow> pyval \<Rightarrow> py_exc + dataframe" where
  "groupby0 df cols agg =
     (case cols of
        PList ks \<Rightarrow>
          if list_all (\<lambda>k. k \<in> set (map PStr (column_names df))) ks then
            Inr \<lparr> columns = filter (\<lambda>c. PStr (fst c) \<in> set ks) (columns df),
                  rows = remdups (map (\<lambda>r. map snd (filter (\<lambda>cv. PStr (fst (fst cv)) \<in> set ks)
                                                      (zip (columns df) r))) (rows df)) \<rparr>
          else Inl (PyExc KeyError (py_repr0 cols))
      | _ \<Rightarrow> Inl (PyExc KeyError (py_repr0 cols)))"

text \<open>
  The two filters it knows: \<^verbatim>\<open>A > 1\<close> keeps the rows whose \<open>A\<close> is an integer above 1;
  \<open>filter_below_source_rows\<close> reads the file \<^verbatim>\<open>data.csv\<close> with pandas and keeps the
  rows whose \<open>A\<close> is an integer below its number of rows.
\<close>

definition filter_below_source_rows :: string where
  "filter_below_source_rows = ''A < @pd.read_csv('data.csv').index.size''"

definition query0 :: "dataframe \<Rightarrow> pyval \<Rightarrow> world \<Rightarrow> (py_exc + dataframe) \<times> world" where
  "query0 df expr w =
     (if expr = PStr ''A > 1'' then
        (Inr (df\<lparr>rows := filter (\<lambda>r. case map_of (zip (column_names df) r) ''A'' of
                                        Some (IntV i) \<Rightarrow> 1 < i | _ \<Rightarrow> False) (rows df)\<rparr>), w)
      else if expr = PStr filter_below_source_rows then
        (case read_csv0 (PStr ''data.csv'') (files w ''data.csv'') of
           Inl e \<Rightarrow> (Inl e, w)
         | Inr source \<Rightarrow>
             (Inr (df\<lparr>rows := filter (\<lambda>r. case map_of (zip (column_names df) r) ''A'' of
                                             Some (IntV i) \<Rightarrow> i < int (length (rows source))
                                           | _ \<Rightarrow> False) (rows df)\<rparr>), w))
      else (Inl (PyExc (OtherError ''SyntaxError'') ''invalid syntax''), w))"

text \<open>
  \<^verbatim>\<open>exit()\<close> raises \<^verbatim>\<open>SystemExit\<close>; \<open>code_raise_no_str\<close> raises an instance of a class
  derived from \<^verbatim>\<open>Exception\<close> whose \<^verbatim>\<open>__str__\<close> divides by zero; \<open>code_read_source\<close>
  reads the file \<^verbatim>\<open>data.csv\<close> with pandas and counts its rows; \<^verbatim>\<open>df\<close> is the frame,
  \<^verbatim>\<open>len(df)\<close> its row count.
\<close>

definition code_raise_no_str :: string where
  "code_raise_no_str =
     ''(_ for _ in ()).throw(type('E',(Exception,),{'__str__': lambda s: 1/0})())''"

definition code_read_source :: string where
  "code_read_source = ''len(pd.read_csv('data.csv'))''"

definition eval0 :: "pyval \<Rightarrow> dataframe \<Rightarrow> world \<Rightarrow> (py_exc + eval_result) \<times> world" where
  "eval0 code df w =
     (if code = PStr ''exit()'' then (Inl (PyExc SystemExit ''None''), w)
      else if code = PStr code_raise_no_str then
        (Inl (PyExcNoStr (OtherError ''E'')
                (PyExc (OtherError ''ZeroDivisionError'') ''division by zero'')), w)
      else if code = PStr code_read_source then
        (case read_csv0 (PStr ''data.csv'') (files w ''data.csv'') of
           Inl e \<Rightarrow> (Inl e, w)
         | Inr source \<Rightarrow> (Inr (EvValue (PInt (int (length (rows source))))), w))
      else if code = PStr ''df'' then (Inr (EvFrame df), w)
      else if code = PStr ''len(df)'' then (Inr (EvValue (PInt (int (length (rows df))))), w)
      else (Inl (PyExc (OtherError ''SyntaxError'') ''invalid syntax''), w))"

definition q_custom_exit :: string where
  \<open>q_custom_exit = ''{"operation": "custom", "parameters": {"code": "exit()"}}''\<close>

definition q_custom_raise_no_str :: string where
  \<open>q_custom_raise_no_str =
     ''{"operation": "custom", "parameters": {"code": "'' @ code_raise_no_str @ ''"}}''\<close>

definition q_custom_read_source :: string where
  \<open>q_custom_read_source =
     ''{"operation": "custom", "parameters": {"code": "'' @ code_read_source @ ''"}}''\<close>

definition q_describe :: string where
  \<open>q_describe = ''{"operation": "describe"}''\<close>

definition q_correlation :: string where
  \<open>q_correlation = ''{"operation": "correlation"}''\<close>

definition q_groupby_str :: string where
  \<open>q_groupby_str = ''{"operation": "groupby", "parameters": {"columns": "B"}}''\<close>

definition q_groupby_list :: string where
  \<open>q_groupby_list = ''{"operation": "groupby", "parameters": {"columns": ["B"]}}''\<close>

definition q_query_limit_1 :: string where
  \<open>q_query_limit_1 = ''{"operation": "query", "parameters": {"filter": "A > 1", "limit": 1}}''\<close>

definition q_query_limit_neg :: string where
  \<open>q_query_limit_neg = ''{"operation": "query", "parameters": {"filter": "A > 1", "limit": -1}}''\<close>

definition q_query_source_rows :: string where
  \<open>q_query_source_rows =
     ''{"operation": "query", "parameters": {"filter": "'' @ filter_below_source_rows @ ''"}}''\<close>

definition q_describe_elsewhere :: string where
  \<open>q_describe_elsewhere = ''{"operation": "describe", "parameters": {"temp_path": "nowhere.csv"}}''\<close>

definition q_histogram_no_column :: string where
  \<open>q_histogram_no_column = ''{"plot_type": "histogram", "parameters": {}}''\<close>

definition q_scatter_no_y :: string where
  \<open>q_scatter_no_y = ''{"plot_type": "scatter", "parameters": {"x": "a"}}''\<close>

definition q_bar :: string where
  \<open>q_bar = ''{"plot_type": "bar", "parameters": {"x": "k", "y": "v"}}''\<close>

definition q_histogram_elsewhere :: string where
  \<open>q_histogram_elsewhere = ''{"plot_type": "histogram", "parameters": {"column": "A", "temp_path": "nowhere.csv"}}''\<close>

definition q_no_kind :: string where
  \<open>q_no_kind = ''{}''\<close>

text \<open>The parses of the requests above.\<close>

definition json_loads0 :: "string \<Rightarrow> py_exc + pyval" where
  "json_loads0 s =
     (if s = q_custom_exit then
        Inr (PDict [(''operation'', PStr ''custom''),
                    (''parameters'', PDict [(''code'', PStr ''exit()'')])])
      else if s = q_custom_raise_no_str then
        Inr (PDict [(''operation'', PStr ''custom''),
                    (''parameters'', PDict [(''code'', PStr code_raise_no_str)])])
      else if s = q_custom_read_source then
        Inr (PDict [(''operation'', PStr ''custom''),
                    (''parameters'', PDict [(''code'', PStr code_read_source)])])
      else if s = q_describe then Inr (PDict [(''operation'', PStr ''describe'')])
      else if s = q_correlation then Inr (PDict [(''operation'', PStr ''correlation'')])
      else if s = q_groupby_str then
        Inr (PDict [(''operation'', PStr ''groupby''),
                    (''parameters'', PDict [(''columns'', PStr ''B'')])])
      else if s = q_groupby_list then
        Inr (PDict [(''operation'', PStr ''groupby''),
                    (''parameters'', PDict [(''columns'', PList [PStr ''B''])])])
      else if s = q_query_limit_1 then
        Inr (PDict [(''operation'', PStr ''query''),
                    (''parameters'', PDict [(''filter'', PStr ''A > 1''), (''limit'', PInt 1)])])
      else if s = q_query_limit_neg then
        Inr (PDict [(''operation'', PStr ''query''),
                    (''parameters'', PDict [(''filter'', PStr ''A > 1''), (''limit'', PInt (- 1))])])
      else if s = q_query_source_rows then
        Inr (PDict [(''operation'', PStr ''query''),
                    (''parameters'', PDict [(''filter'', PStr filter_below_source_rows)])])
      else if s = q_describe_elsewhere then
        Inr (PDict [(''operation'', PStr ''describe''),
                    (''parameters'', PDict [(''temp_path'', PStr ''nowhere.csv'')])])
      else if s = q_histogram_no_column then
        Inr (PDict [(''plot_type'', PStr ''histogram''), (''parameters'', PDict [])])
      else if s = q_scatter_no_y then
        Inr (PDict [(''plot_type'', PStr ''scatter''),
                    (''parameters'', PDict [(''x'', PStr ''a'')])])
      else if s = q_bar then
        Inr (PDict [(''plot_type'', PStr ''bar''),
                    (''parameters'', PDict [(''x'', PStr ''k''), (''y'', PStr ''v'')])])
      else if s = q_histogram_elsewhere then
        Inr (PDict [(''plot_type'', PStr ''histogram''),
                    (''parameters'', PDict [(''column'', PStr ''A''),
                                            (''temp_path'', PStr ''nowhere.csv'')])])
      else if s = q_no_kind then Inr (PDict [])
      else Inl (PyExc JSONDecodeError ''Expecting value: line 1 column 1 (char 0)''))"

definition lib0 :: pylib where
  "lib0 =
     \<lparr> json_loads = json_loads0,
       json_dumps = (\<lambda>v. Inr (show_pyval v)),
       py_repr = py_repr0,
       os_path_exists_nonstr = (\<lambda>v. Inr False),
       os_makedirs = (\<lambda>w d. Inr (insert d (dirs w))),
       pd_read_csv = read_csv0,
       pd_read_excel = read_other0,
       pd_read_json = read_other0,
       df_to_csv = to_csv0,
       pd_check_percentiles = (\<lambda>p. None),
       pd_describe_column =
         (\<lambda>p t cs. PDict [(''count'', PInt (int (length (filter (\<lambda>v. v \<noteq> NaN) cs))))]),
       pd_pearson = (\<lambda>a b. if a = b then PFloat ''1.0'' else PFloat ''NaN''),
       pd_value_counts = (\<lambda>cs. PDict (map (\<lambda>v. (show_cell v, PInt (int (count_list cs v))))
                                          (remdups cs))),
       df_groupby_agg = groupby0,
       df_query = query0,
       df_head_invalid =
         (\<lambda>v. PyExc TypeError (''cannot do positional indexing with an indexer of type ''
                                 @ type_name v)),
       df_getitem_invalid = (\<lambda>v. PyExc KeyError (py_repr0 v)),
       df_sort_values = (\<lambda>df by. Inr df),
       py_eval = eval0,
       plt_raises = (\<lambda>df calls c. None),
       plt_render = (\<lambda>calls. ''figure of '' @ show_nat (length calls) @ '' calls'') \<rparr>"

definition no_files :: world where
  "no_files = \<lparr> files = (\<lambda>p. None), dirs = {}, plt_calls = [] \<rparr>"

definition one_file :: "string \<Rightarrow> string \<Rightarrow> world" where
  "one_file path text =
     \<lparr> files = (\<lambda>p. if p = path then Some text else None), dirs = {}, plt_calls = [] \<rparr>"

text \<open>A staged dataset next to the source file \<^verbatim>\<open>data.csv\<close>.\<close>

definition staged_beside :: "string \<Rightarrow> string \<Rightarrow> world" where
  "staged_beside staged_text source_text =
     \<lparr> files = (\<lambda>p. if p = ''temp_dataframe.csv'' then Some staged_text
                     else if p = ''data.csv'' then Some source_text else None),
       dirs = {}, plt_calls = [] \<rparr>"

section \<open>Facts about the model\<close>

subsection \<open>The handler, the request and the staged dataset\<close>



lemma except_Exception_same:
  "fst r1 = fst r2 \<Longrightarrow> except_Exception prefix r1 = (fst (except_Exception prefix r2), snd r1)"
  by (auto simp: except_Exception_def split: prod.splits sum.splits)

lemma except_Exception_returned [simp]:
  "except_Exception prefix (Inr s, w) = (Inr s, w)"
  by (simp add: except_Exception_def)

lemma analysis_body_request:
  assumes "json_loads lib query = Inr (PDict query_dict)"
    and "dict_get query_dict ''parameters'' (PDict []) = PDict params"
  shows "DataFrameAnalysisTool_body lib w query =
         analysis_staged lib w (dict_get query_dict ''operation'' PNone) params"
  using assms by (simp add: DataFrameAnalysisTool_body_def Let_def)

lemma visualization_body_request:
  assumes "json_loads lib query = Inr (PDict query_dict)"
    and "dict_get query_dict ''parameters'' (PDict []) = PDict params"
  shows "DataVisualizationTool_body lib w query =
         visualization_staged lib w (dict_get query_dict ''plot_type'' PNone) params
           (dict_get query_dict ''save_path'' (PStr ''visualization.png''))"
  using assms by (simp add: DataVisualizationTool_body_def Let_def)

lemma staged_path:
  "staged lib w params df \<Longrightarrow>
   \<exists>p text. dict_get params ''temp_path'' (PStr ''temp_dataframe.csv'') = PStr p
     \<and> files w p = Some text \<and> pd_read_csv lib (PStr p) (Some text) = Inr df"
  by (auto simp: staged_def split: pyval.splits option.splits)

lemma analysis_staged_df:
  assumes "staged lib w params df"
  shows "analysis_staged lib w operation params = analysis_operation lib w operation params df"
proof -
  from staged_path [OF assms] obtain p content where
    "dict_get params ''temp_path'' (PStr ''temp_dataframe.csv'') = PStr p"
    "files w p = Some content" "pd_read_csv lib (PStr p) (Some content) = Inr df"
    by blast
  then show ?thesis
    by (simp add: analysis_staged_def os_path_exists_def read_csv_def)
qed

lemma analysis_staged_missing:
  assumes "dict_get params ''temp_path'' (PStr ''temp_dataframe.csv'') = PStr p"
    and "files w p = None" and "p \<notin> dirs w"
  shows "analysis_staged lib w operation params =
         (Inr (''Error: Temporary DataFrame file not found at '' @ p), w)"
  using assms by (simp add: analysis_staged_def os_path_exists_def py_str_def)

lemma visualization_staged_df:
  assumes "staged lib w params df"
  shows "visualization_staged lib w plot_type params save_path =
         (case plt lib df Figure w of
            (Some e, w1) \<Rightarrow> (Inl e, w1)
          | (None, w1) \<Rightarrow>
              (case render_plot lib w1 plot_type params df of
                 (Inl e, w2) \<Rightarrow> (Inl e, w2)
               | (Inr (Some s), w2) \<Rightarrow> (Inr s, w2)
               | (Inr None, w2) \<Rightarrow> save_figure lib w2 df save_path))"
proof -
  from staged_path [OF assms] obtain p content where
    "dict_get params ''temp_path'' (PStr ''temp_dataframe.csv'') = PStr p"
    "files w p = Some content" "pd_read_csv lib (PStr p) (Some content) = Inr df"
    by blast
  then show ?thesis
    by (simp add: visualization_staged_def os_path_exists_def read_csv_def)
qed

lemma visualization_staged_missing:
  assumes "dict_get params ''temp_path'' (PStr ''temp_dataframe.csv'') = PStr p"
    and "files w p = None" and "p \<notin> dirs w"
  shows "visualization_staged lib w plot_type params save_path =
         (Inr (''Error: Temporary DataFrame file not found at '' @ p), w)"
  using assms by (simp add: visualization_staged_def os_path_exists_def py_str_def)

subsection \<open>C1: what leaves a tool\<close>








subsection \<open>C10: a request without its kind\<close>

lemma no_kind_parsed: "json_loads lib0 q_no_kind = Inr (PDict [])"
  by code_simp

lemma no_kind_no_staging:
  "DataFrameAnalysisTool_run lib0 no_files q_no_kind
   = (Inr ''Error: Temporary DataFrame file not found at temp_dataframe.csv'', no_files)"
proof -
  have params: "dict_get [] ''parameters'' (PDict []) = PDict []"
    by (simp add: dict_get_def)
  have "analysis_staged lib0 no_files PNone []
        = (Inr ''Error: Temporary DataFrame file not found at temp_dataframe.csv'', no_files)"
    by (rule analysis_staged_missing [where p = "''temp_dataframe.csv''", simplified])
       (simp_all add: dict_get_def no_files_def)
  then show ?thesis
    by (simp add: DataFrameAnalysisTool_run_def analysis_body_request [OF no_kind_parsed params]
          dict_get_def)
qed

text \<open>
  C10, as amended. A request that parses to an object without the key \<^verbatim>\<open>operation\<close>
  (for the Renderer, \<^verbatim>\<open>plot_type\<close>) is not a parse failure. The staging file is looked
  for first, so the claim holds once the staged dataset has been read (and, for the
  Renderer, the figure has been set up): the missing key reads as \<^verbatim>\<open>None\<close>, no branch
  matches, and the call returns \<^verbatim>\<open>Error: Unsupported operation 'None'\<close>, respectively
  \<^verbatim>\<open>Error: Unsupported plot type 'None'\<close>.
\<close>

theorem C10_missing_kind_is_None:
  assumes "json_loads lib query = Inr (PDict query_dict)"
    and "dict_get query_dict ''parameters'' (PDict []) = PDict params"
    and "staged lib w params df"
  shows "(map_of query_dict ''operation'' = None
          \<longrightarrow> DataFrameAnalysisTool_run lib w query
                = (Inr (''Error: Unsupported operation '' @ quoted ''None''), w))
         \<and> (map_of query_dict ''plot_type'' = None \<and> plt_raises lib df (plt_calls w) Figure = None
          \<longrightarrow> DataVisualizationTool_run lib w query
                = (Inr (''Error: Unsupported plot type '' @ quoted ''None''),
                   w\<lparr>plt_calls := plt_calls w @ [Figure]\<rparr>))"
proof -
  have a: "map_of query_dict ''operation'' = None \<Longrightarrow>
           analysis_operation lib w (dict_get query_dict ''operation'' PNone) params df
           = (Inr (''Error: Unsupported operation '' @ quoted ''None''), w)"
    by (simp add: analysis_operation_def dict_get_def py_str_def)
  have b: "map_of query_dict ''plot_type'' = None \<Longrightarrow>
           render_plot lib w1 (dict_get query_dict ''plot_type'' PNone) params df
           = (Inr (Some (''Error: Unsupported plot type '' @ quoted ''None'')), w1)" for w1
    by (simp add: render_plot_def dict_get_def py_str_def)
  show ?thesis
    using a b
    by (simp add: DataFrameAnalysisTool_run_def DataVisualizationTool_run_def
          analysis_body_request [OF assms(1,2)] visualization_body_request [OF assms(1,2)]
          analysis_staged_df [OF assms(3)] visualization_staged_df [OF assms(3)] plt_def)
qed

text \<open>The theorem at the request \<^verbatim>\<open>{}\<close> on a staged dataset.\<close>

theorem C10_witness:
  "DataFrameAnalysisTool_run lib0 (one_file ''temp_dataframe.csv'' csv_AB) q_no_kind
     = (Inr (''Error: Unsupported operation '' @ quoted ''None''),
        one_file ''temp_dataframe.csv'' csv_AB)
   \<and> DataVisualizationTool_run lib0 (one_file ''temp_dataframe.csv'' csv_AB) q_no_kind
     = (Inr (''Error: Unsupported plot type '' @ quoted ''None''),
        (one_file ''temp_dataframe.csv'' csv_AB)\<lparr>plt_calls := [Figure]\<rparr>)"
proof -
  have params: "dict_get [] ''parameters'' (PDict []) = PDict []"
    by (simp add: dict_get_def)
  have there: "staged lib0 (one_file ''temp_dataframe.csv'' csv_AB) [] df_AB"
    by (simp add: staged_def dict_get_def one_file_def lib0_def read_csv0_def)
  show ?thesis
    using C10_missing_kind_is_None [OF no_kind_parsed params there]
    by (simp add: lib0_def one_file_def)
qed

text \<open>C10 as stated fails for the request \<^verbatim>\<open>{}\<close> when nothing is staged: it parses,
  and the answer is the diagnostic of the missing staging file.\<close>

theorem C10_counterexample:
  "json_loads lib0 q_no_kind = Inr (PDict [])
   \<and> fst (DataFrameAnalysisTool_run lib0 no_files q_no_kind)
     = Inr ''Error: Temporary DataFrame file not found at temp_dataframe.csv''
   \<and> fst (DataFrameAnalysisTool_run lib0 no_files q_no_kind)
     \<noteq> Inr (''Error: Unsupported operation '' @ quoted ''None'')"
  by (simp add: no_kind_parsed no_kind_no_staging)

subsection \<open>C9: the extension\<close>

lemma split_str_not_Nil [simp]: "split_str sep s \<noteq> []"
  by (induction s) (auto split: list.splits)

lemma split_str_without: "sep \<notin> set s \<Longrightarrow> split_str sep s = [s]"
  by (induction s) auto

lemma split_str_two: "sep \<in> set s \<Longrightarrow> \<exists>p q ps. split_str sep s = p # q # ps"
proof (induction s)
  case Nil
  then show ?case by simp
next
  case (Cons c s)
  show ?case
  proof (cases "c = sep")
    case True
    then show ?thesis by (cases "split_str sep s") auto
  next
    case False
    with Cons show ?thesis by auto
  qed
qed

lemma last_split_str: "sep \<notin> set e \<Longrightarrow> last (split_str sep (p @ sep # e)) = e"
proof (induction p)
  case Nil
  then show ?case by (simp add: split_str_without)
next
  case (Cons c p)
  have "sep \<in> set (p @ sep # e)" by simp
  from split_str_two [OF this] obtain a b bs where "split_str sep (p @ sep # e) = a # b # bs"
    by blast
  with Cons show ?case by auto
qed

lemma file_ext_suffix: "CHR ''.'' \<notin> set ext \<Longrightarrow> file_ext (stem @ ''.'' @ ext) = lower ext"
  by (simp add: file_ext_def last_split_str)

lemma file_ext_no_dot: "CHR ''.'' \<notin> set path \<Longrightarrow> file_ext path = lower path"
  by (simp add: file_ext_def split_str_without)

lemma load_csv:
  "file_ext path = ''csv'' \<Longrightarrow>
   DataFrameLoadTool_run lib w path
   = except_Exception ''Error loading dataset: ''
       (loaded lib w path (pd_read_csv lib (PStr path) (files w path)))"
  by (simp add: DataFrameLoadTool_run_def DataFrameLoadTool_body_def)

lemma load_excel:
  "file_ext path \<in> {''xls'', ''xlsx''} \<Longrightarrow>
   DataFrameLoadTool_run lib w path
   = except_Exception ''Error loading dataset: ''
       (loaded lib w path (pd_read_excel lib (PStr path) (files w path)))"
  by (auto simp: DataFrameLoadTool_run_def DataFrameLoadTool_body_def)

lemma load_json:
  "file_ext path = ''json'' \<Longrightarrow>
   DataFrameLoadTool_run lib w path
   = except_Exception ''Error loading dataset: ''
       (loaded lib w path (pd_read_json lib (PStr path) (files w path)))"
  by (simp add: DataFrameLoadTool_run_def DataFrameLoadTool_body_def)

lemma load_unsupported:
  "file_ext path \<notin> {''csv'', ''xls'', ''xlsx'', ''json''} \<Longrightarrow>
   DataFrameLoadTool_run lib w path = (Inr (''Unsupported file format: '' @ file_ext path), w)"
  by (simp add: DataFrameLoadTool_run_def DataFrameLoadTool_body_def)

text \<open>
  C9, as amended. The extension is the piece after the last \<^verbatim>\<open>.\<close> of the path,
  lowercased, so \<^verbatim>\<open>.CSV\<close> is read as delimited text; for a path without \<^verbatim>\<open>.\<close> it is
  the whole lowercased path. When that extension is none of \<^verbatim>\<open>csv\<close>, \<^verbatim>\<open>xls\<close>,
  \<^verbatim>\<open>xlsx\<close>, \<^verbatim>\<open>json\<close> the Loader returns the unsupported-format diagnostic, with the
  files untouched and no reader called; otherwise the reader of that extension is
  called on the path, also when the path has no \<^verbatim>\<open>.\<close> and is itself one of these words.
\<close>

theorem C9_extension_is_lowercased_last_piece:
  "(CHR ''.'' \<notin> set ext \<longrightarrow> file_ext (stem @ ''.'' @ ext) = lower ext)
   \<and> (CHR ''.'' \<notin> set path \<longrightarrow> file_ext path = lower path)
   \<and> (file_ext path = ''csv''
        \<longrightarrow> DataFrameLoadTool_run lib w path
            = except_Exception ''Error loading dataset: ''
                (loaded lib w path (pd_read_csv lib (PStr path) (files w path))))
   \<and> (file_ext path \<in> {''xls'', ''xlsx''}
        \<longrightarrow> DataFrameLoadTool_run lib w path
            = except_Exception ''Error loading dataset: ''
                (loaded lib w path (pd_read_excel lib (PStr path) (files w path))))
   \<and> (file_ext path = ''json''
        \<longrightarrow> DataFrameLoadTool_run lib w path
            = except_Exception ''Error loading dataset: ''
                (loaded lib w path (pd_read_json lib (PStr path) (files w path))))
   \<and> (file_ext path \<notin> {''csv'', ''xls'', ''xlsx'', ''json''}
        \<longrightarrow> DataFrameLoadTool_run lib w path
            = (Inr (''Unsupported file format: '' @ file_ext path), w))"
  using file_ext_suffix [of ext stem] file_ext_no_dot [of path] load_csv [of path lib w]
        load_excel [of path lib w] load_json [of path lib w] load_unsupported [of path lib w]
  by blast

text \<open>The theorem at the paths \<^verbatim>\<open>data.CSV\<close> and \<^verbatim>\<open>README\<close>.\<close>

lemma lower_CSV: "lower ''CSV'' = ''csv''"
  by code_simp

lemma lower_README: "lower ''README'' = ''readme''"
  by code_simp

lemma lower_csv: "lower ''csv'' = ''csv''"
  by code_simp

lemma load_path_csv:
  "files (snd (DataFrameLoadTool_run lib0 (one_file ''csv'' csv_AB) ''csv'')) ''temp_dataframe.csv''
   = Some csv_AB"
  by code_simp

lemma load_path_csv_result:
  "fst (DataFrameLoadTool_run lib0 (one_file ''csv'' csv_AB) ''csv'')
   \<noteq> Inr ''Unsupported file format: csv''"
  by code_simp

theorem C9_witness:
  "file_ext (''data'' @ ''.'' @ ''CSV'') = ''csv''
   \<and> file_ext ''README'' = ''readme''
   \<and> DataFrameLoadTool_run lib0 (one_file ''data.CSV'' csv_AB) ''data.CSV''
       = except_Exception ''Error loading dataset: ''
           (loaded lib0 (one_file ''data.CSV'' csv_AB) ''data.CSV'' (Inr df_AB))
   \<and> DataFrameLoadTool_run lib0 no_files ''README''
       = (Inr ''Unsupported file format: readme'', no_files)"
proof -
  have a: "file_ext (''data'' @ ''.'' @ ''CSV'') = ''csv''"
    using C9_extension_is_lowercased_last_piece [of "''CSV''" "''data''"] lower_CSV by simp
  have b: "file_ext ''README'' = ''readme''"
    using C9_extension_is_lowercased_last_piece [of _ _ "''README''"] lower_README by simp
  have c: "DataFrameLoadTool_run lib0 (one_file ''data.CSV'' csv_AB) ''data.CSV''
           = except_Exception ''Error loading dataset: ''
               (loaded lib0 (one_file ''data.CSV'' csv_AB) ''data.CSV'' (Inr df_AB))"
    using C9_extension_is_lowercased_last_piece
            [of _ _ "''data.CSV''" lib0 "one_file ''data.CSV'' csv_AB"] a
    by (simp add: lib0_def one_file_def read_csv0_def)
  have d: "DataFrameLoadTool_run lib0 no_files ''README''
           = (Inr ''Unsupported file format: readme'', no_files)"
    using C9_extension_is_lowercased_last_piece [of _ _ "''README''" lib0 no_files] b
    by simp
  from a b c d show ?thesis by blast
qed

text \<open>C9 as stated fails for the path \<^verbatim>\<open>csv\<close>: it has no \<^verbatim>\<open>.\<close>, and the file of
  that name is parsed and staged.\<close>

theorem C9_counterexample:
  "CHR ''.'' \<notin> set ''csv''
   \<and> fst (DataFrameLoadTool_run lib0 (one_file ''csv'' csv_AB) ''csv'')
       \<noteq> Inr ''Unsupported file format: csv''
   \<and> files (snd (DataFrameLoadTool_run lib0 (one_file ''csv'' csv_AB) ''csv''))
         ''temp_dataframe.csv'' = Some csv_AB"
  using load_path_csv load_path_csv_result by simp

subsection \<open>Requests on a staged dataset\<close>

lemma analysis_run_staged:
  assumes "json_loads lib query = Inr (PDict query_dict)"
    and "dict_get query_dict ''parameters'' (PDict []) = PDict params"
    and "staged lib w params df"
  shows "DataFrameAnalysisTool_run lib w query
         = except_Exception ''Error during DataFrame analysis: ''
             (analysis_operation lib w (dict_get query_dict ''operation'' PNone) params df)"
  by (simp add: DataFrameAnalysisTool_run_def analysis_body_request [OF assms(1,2)]
        analysis_staged_df [OF assms(3)])

lemma staged_AB: "staged lib0 (one_file ''temp_dataframe.csv'' csv_AB) [] df_AB"
  by (simp add: staged_def dict_get_def one_file_def lib0_def read_csv0_def)

lemma staged_B: "staged lib0 (one_file ''temp_dataframe.csv'' csv_B) [] df_B"
  by (simp add: staged_def dict_get_def one_file_def lib0_def read_csv0_def csv_B_def csv_AB_def)

lemma no_parameters: "dict_get [(''operation'', v)] ''parameters'' (PDict []) = PDict []"
  by (simp add: dict_get_def)

subsection \<open>C2: numeric columns\<close>

lemma select_dtypes_names: "column_names (select_dtypes is_number df) = numeric_columns df"
  by (simp add: column_names_def select_dtypes_def numeric_columns_def)

lemma select_dtypes_empty:
  "empty (select_dtypes is_number df) = (numeric_columns df = [] \<or> rows df = [])"
  by (auto simp: empty_def select_dtypes_def numeric_columns_def)

lemma corr_matrix: "matrix_over (column_names numeric_df) (corr lib numeric_df)"
  by (simp add: matrix_over_def table_over_def corr_def list_all_iff comp_def)

lemma describe_numeric:
  assumes "pd_check_percentiles lib percentiles = None" and "numeric_columns df \<noteq> []"
  shows "\<exists>t. table_over (numeric_columns df) t \<and> describe lib percentiles df = Inr t"
proof -
  from assms(2) have "columns df \<noteq> []"
    by (auto simp: numeric_columns_def)
  moreover from assms(2) have "columns (select_dtypes is_number df) \<noteq> []"
    by (simp add: select_dtypes_def numeric_columns_def)
  ultimately show ?thesis
    using assms(1)
    by (simp add: describe_def Let_def table_over_def comp_def numeric_columns_def
          select_dtypes_def)
qed

lemma describe_no_numeric:
  assumes "pd_check_percentiles lib percentiles = None" and "numeric_columns df = []"
    and "columns df \<noteq> []"
  shows "\<exists>t. table_over (column_names df) t \<and> describe lib percentiles df = Inr t"
proof -
  from assms(2) have "columns (select_dtypes is_number df) = []"
    by (simp add: select_dtypes_def numeric_columns_def)
  then show ?thesis
    using assms(1,3)
    by (simp add: describe_def Let_def table_over_def comp_def column_names_def)
qed

text \<open>
  C2, as amended. On a staged dataset, \<^verbatim>\<open>correlation\<close> works on the numeric columns
  only: it answers with a square matrix over exactly their labels, and with the
  diagnostic when there is no numeric column (or no row). \<^verbatim>\<open>describe\<close> is handed the
  whole frame: pandas restricts it to the numeric columns when there is at least one,
  and describes every column when there is none. In each case the answer is the
  serialisation of that matrix or table.
\<close>

theorem C2_correlation_numeric_only_describe_numeric_when_any:
  assumes "json_loads lib query = Inr (PDict query_dict)"
    and "dict_get query_dict ''parameters'' (PDict []) = PDict params"
    and "staged lib w params df"
  shows "(dict_get query_dict ''operation'' PNone = PStr ''correlation''
            \<and> (numeric_columns df = [] \<or> rows df = [])
          \<longrightarrow> DataFrameAnalysisTool_run lib w query
                = (Inr ''No numeric columns found for correlation analysis'', w))
         \<and> (dict_get query_dict ''operation'' PNone = PStr ''correlation''
            \<and> numeric_columns df \<noteq> [] \<and> rows df \<noteq> []
          \<longrightarrow> (\<exists>m. matrix_over (numeric_columns df) m
                 \<and> DataFrameAnalysisTool_run lib w query
                   = except_Exception ''Error during DataFrame analysis: ''
                       (json_dumps lib m, w)))
         \<and> (dict_get query_dict ''operation'' PNone = PStr ''describe''
            \<and> pd_check_percentiles lib
                 (dict_get params ''percentiles''
                    (PList [PFloat ''0.25'', PFloat ''0.5'', PFloat ''0.75''])) = None
            \<and> numeric_columns df \<noteq> []
          \<longrightarrow> (\<exists>t. table_over (numeric_columns df) t
                 \<and> DataFrameAnalysisTool_run lib w query
                   = except_Exception ''Error during DataFrame analysis: ''
                       (json_dumps lib t, w)))
         \<and> (dict_get query_dict ''operation'' PNone = PStr ''describe''
            \<and> pd_check_percentiles lib
                 (dict_get params ''percentiles''
                    (PList [PFloat ''0.25'', PFloat ''0.5'', PFloat ''0.75''])) = None
            \<and> numeric_columns df = [] \<and> columns df \<noteq> []
          \<longrightarrow> (\<exists>t. table_over (column_names df) t
                 \<and> DataFrameAnalysisTool_run lib w query
                   = except_Exception ''Error during DataFrame analysis: ''
                       (json_dumps lib t, w)))"
proof (intro conjI impI)
  assume "dict_get query_dict ''operation'' PNone = PStr ''correlation''
          \<and> (numeric_columns df = [] \<or> rows df = [])"
  then show "DataFrameAnalysisTool_run lib w query
             = (Inr ''No numeric columns found for correlation analysis'', w)"
    by (simp add: analysis_run_staged [OF assms] analysis_operation_def op_correlation_def
          select_dtypes_empty)
next
  assume "dict_get query_dict ''operation'' PNone = PStr ''correlation''
          \<and> numeric_columns df \<noteq> [] \<and> rows df \<noteq> []"
  then have "DataFrameAnalysisTool_run lib w query
             = except_Exception ''Error during DataFrame analysis: ''
                 (json_dumps lib (corr lib (select_dtypes is_number df)), w)"
    by (simp add: analysis_run_staged [OF assms] analysis_operation_def op_correlation_def
          select_dtypes_empty)
  moreover have "matrix_over (numeric_columns df) (corr lib (select_dtypes is_number df))"
    using corr_matrix [of "select_dtypes is_number df" lib] by (simp add: select_dtypes_names)
  ultimately show "\<exists>m. matrix_over (numeric_columns df) m
                     \<and> DataFrameAnalysisTool_run lib w query
                       = except_Exception ''Error during DataFrame analysis: ''
                           (json_dumps lib m, w)"
    by blast
next
  assume a: "dict_get query_dict ''operation'' PNone = PStr ''describe''
          \<and> pd_check_percentiles lib
               (dict_get params ''percentiles''
                  (PList [PFloat ''0.25'', PFloat ''0.5'', PFloat ''0.75''])) = None
          \<and> numeric_columns df \<noteq> []"
  then obtain t where "table_over (numeric_columns df) t"
    and "describe lib (dict_get params ''percentiles''
                         (PList [PFloat ''0.25'', PFloat ''0.5'', PFloat ''0.75''])) df = Inr t"
    using describe_numeric by blast
  with a show "\<exists>t. table_over (numeric_columns df) t
                 \<and> DataFrameAnalysisTool_run lib w query
                   = except_Exception ''Error during DataFrame analysis: ''
                       (json_dumps lib t, w)"
    by (auto simp: analysis_run_staged [OF assms] analysis_operation_def op_describe_def)
next
  assume a: "dict_get query_dict ''operation'' PNone = PStr ''describe''
          \<and> pd_check_percentiles lib
               (dict_get params ''percentiles''
                  (PList [PFloat ''0.25'', PFloat ''0.5'', PFloat ''0.75''])) = None
          \<and> numeric_columns df = [] \<and> columns df \<noteq> []"
  then obtain t where "table_over (column_names df) t"
    and "describe lib (dict_get params ''percentiles''
                         (PList [PFloat ''0.25'', PFloat ''0.5'', PFloat ''0.75''])) df = Inr t"
    using describe_no_numeric by blast
  with a show "\<exists>t. table_over (column_names df) t
                 \<and> DataFrameAnalysisTool_run lib w query
                   = except_Exception ''Error during DataFrame analysis: ''
                       (json_dumps lib t, w)"
    by (auto simp: analysis_run_staged [OF assms] analysis_operation_def op_describe_def)
qed

text \<open>The theorem on the dataset \<open>A = [1, 2, 3]\<close>, \<open>B = [x, y, z]\<close> and on the
  dataset with the column \<open>B\<close> alone.\<close>

lemma correlation_parsed:
  "json_loads lib0 q_correlation = Inr (PDict [(''operation'', PStr ''correlation'')])"
  by code_simp

lemma describe_parsed:
  "json_loads lib0 q_describe = Inr (PDict [(''operation'', PStr ''describe'')])"
  by code_simp

lemma correlation_AB:
  \<open>fst (DataFrameAnalysisTool_run lib0 (one_file ''temp_dataframe.csv'' csv_AB) q_correlation)
   = Inr ''{"A": {"A": 1.0}}''\<close>
  by code_simp

lemma describe_B:
  \<open>fst (DataFrameAnalysisTool_run lib0 (one_file ''temp_dataframe.csv'' csv_B) q_describe)
   = Inr ''{"B": {"count": 3}}''\<close>
  by code_simp

lemma numeric_columns_AB: "numeric_columns df_AB = [''A'']"
  by (simp add: numeric_columns_def df_AB_def)

lemma numeric_columns_B: "numeric_columns df_B = []"
  by (simp add: numeric_columns_def df_B_def)

theorem C2_witness:
  \<open>(\<exists>m. matrix_over [''A''] m
        \<and> DataFrameAnalysisTool_run lib0 (one_file ''temp_dataframe.csv'' csv_AB) q_correlation
          = except_Exception ''Error during DataFrame analysis: ''
              (json_dumps lib0 m, one_file ''temp_dataframe.csv'' csv_AB))
   \<and> fst (DataFrameAnalysisTool_run lib0 (one_file ''temp_dataframe.csv'' csv_AB) q_correlation)
       = Inr ''{"A": {"A": 1.0}}''
   \<and> DataFrameAnalysisTool_run lib0 (one_file ''temp_dataframe.csv'' csv_B) q_correlation
       = (Inr ''No numeric columns found for correlation analysis'',
          one_file ''temp_dataframe.csv'' csv_B)
   \<and> (\<exists>t. table_over [''A''] t
        \<and> DataFrameAnalysisTool_run lib0 (one_file ''temp_dataframe.csv'' csv_AB) q_describe
          = except_Exception ''Error during DataFrame analysis: ''
              (json_dumps lib0 t, one_file ''temp_dataframe.csv'' csv_AB))
   \<and> (\<exists>t. table_over [''B''] t
        \<and> DataFrameAnalysisTool_run lib0 (one_file ''temp_dataframe.csv'' csv_B) q_describe
          = except_Exception ''Error during DataFrame analysis: ''
              (json_dumps lib0 t, one_file ''temp_dataframe.csv'' csv_B))\<close>
proof -
  have rows_AB: "rows df_AB \<noteq> []" by (simp add: df_AB_def)
  have cols_B: "columns df_B \<noteq> []" "column_names df_B = [''B'']"
    by (simp_all add: df_B_def column_names_def)
  have pct: "pd_check_percentiles lib0 p = None" for p
    by (simp add: lib0_def)
  note c_AB = C2_correlation_numeric_only_describe_numeric_when_any
                [OF correlation_parsed no_parameters staged_AB]
  note c_B = C2_correlation_numeric_only_describe_numeric_when_any
               [OF correlation_parsed no_parameters staged_B]
  note d_AB = C2_correlation_numeric_only_describe_numeric_when_any
                [OF describe_parsed no_parameters staged_AB]
  note d_B = C2_correlation_numeric_only_describe_numeric_when_any
               [OF describe_parsed no_parameters staged_B]
  have 1: "\<exists>m. matrix_over [''A''] m
        \<and> DataFrameAnalysisTool_run lib0 (one_file ''temp_dataframe.csv'' csv_AB) q_correlation
          = except_Exception ''Error during DataFrame analysis: ''
              (json_dumps lib0 m, one_file ''temp_dataframe.csv'' csv_AB)"
    using c_AB rows_AB by (simp add: numeric_columns_AB dict_get_def)
  have 2: "DataFrameAnalysisTool_run lib0 (one_file ''temp_dataframe.csv'' csv_B) q_correlation
       = (Inr ''No numeric columns found for correlation analysis'',
          one_file ''temp_dataframe.csv'' csv_B)"
    using c_B by (simp add: numeric_columns_B dict_get_def)
  have 3: "\<exists>t. table_over [''A''] t
        \<and> DataFrameAnalysisTool_run lib0 (one_file ''temp_dataframe.csv'' csv_AB) q_describe
          = except_Exception ''Error during DataFrame analysis: ''
              (json_dumps lib0 t, one_file ''temp_dataframe.csv'' csv_AB)"
    using d_AB pct by (simp add: numeric_columns_AB dict_get_def)
  have 4: "\<exists>t. table_over [''B''] t
        \<and> DataFrameAnalysisTool_run lib0 (one_file ''temp_dataframe.csv'' csv_B) q_describe
          = except_Exception ''Error during DataFrame analysis: ''
              (json_dumps lib0 t, one_file ''temp_dataframe.csv'' csv_B)"
    using d_B pct cols_B by (simp add: numeric_columns_B dict_get_def)
  from 1 2 3 4 correlation_AB show ?thesis by blast
qed

text \<open>C2 as stated fails for \<^verbatim>\<open>describe\<close> on the dataset whose only column is the
  text column \<open>B\<close>: the answer describes \<open>B\<close>.\<close>

theorem C2_counterexample:
  \<open>columns df_B = [(''B'', Object)]
   \<and> staged lib0 (one_file ''temp_dataframe.csv'' csv_B) [] df_B
   \<and> fst (DataFrameAnalysisTool_run lib0 (one_file ''temp_dataframe.csv'' csv_B) q_describe)
       = Inr ''{"B": {"count": 3}}''\<close>
  using staged_B describe_B by (simp add: df_B_def)

subsection \<open>C3: the rows a query returns\<close>

lemma to_records_head: "to_records (head k df) = slice_to k (to_records df)"
  by (simp add: to_records_def head_def slice_to_def column_names_def take_map)

lemma length_to_records: "length (to_records df) = length (rows df)"
  by (simp add: to_records_def)

text \<open>
  C3, as amended. On a staged dataset, a \<^verbatim>\<open>query\<close> whose filter yields a frame of \<open>n\<close>
  rows, with an integer limit \<open>k\<close> (10 when the parameter is absent), serialises
  \<^verbatim>\<open>shape\<close> as \<open>[n, number of columns]\<close> and \<^verbatim>\<open>data\<close> as the head of the row records of
  the filtered frame, in order: the first \<open>min n k\<close> of them when \<open>k \<ge> 0\<close>, and all but
  the last \<open>-k\<close> of them when \<open>k < 0\<close>.
\<close>

theorem C3_query_shape_and_limit:
  assumes "json_loads lib query = Inr (PDict query_dict)"
    and "dict_get query_dict ''parameters'' (PDict []) = PDict params"
    and "staged lib w params df"
    and "dict_get query_dict ''operation'' PNone = PStr ''query''"
    and "map_of params ''filter'' = Some expr"
    and "df_query lib df expr w = (Inr filtered_df, w')"
    and "dict_get params ''limit'' (PInt 10) = PInt k"
  shows "\<exists>data.
           DataFrameAnalysisTool_run lib w query
           = except_Exception ''Error during DataFrame analysis: ''
               (json_dumps lib
                  (PDict [(''shape'', PList [PInt (int (length (rows filtered_df))),
                                             PInt (int (length (columns filtered_df)))]),
                          (''data'', PList data)]), w')
           \<and> (0 \<le> k \<longrightarrow> data = take (nat k) (to_records filtered_df)
                        \<and> int (length data) = min (int (length (rows filtered_df))) k)
           \<and> (k < 0 \<longrightarrow> data = take (length (rows filtered_df) - nat (- k))
                                  (to_records filtered_df)
                        \<and> int (length data) = max 0 (int (length (rows filtered_df)) + k))"
proof -
  let ?data = "to_records (head k filtered_df)"
  have run: "DataFrameAnalysisTool_run lib w query
        = except_Exception ''Error during DataFrame analysis: ''
            (json_dumps lib
               (PDict [(''shape'', PList [PInt (int (length (rows filtered_df))),
                                          PInt (int (length (columns filtered_df)))]),
                       (''data'', PList ?data)]), w')"
    using assms(4-7)
    by (simp add: analysis_run_staged [OF assms(1-3)] analysis_operation_def op_query_def
          dict_has_def dict_get_def df_head_def query_result_def shape_def)
  have some: "?data = take (nat k) (to_records filtered_df)
              \<and> int (length ?data) = min (int (length (rows filtered_df))) k" if "0 \<le> k"
    using that by (simp add: to_records_head slice_to_def length_to_records)
  have but_last: "?data = take (length (rows filtered_df) - nat (- k)) (to_records filtered_df)
                  \<and> int (length ?data) = max 0 (int (length (rows filtered_df)) + k)" if "k < 0"
    using that by (simp add: to_records_head slice_to_def length_to_records)
  from run some but_last show ?thesis by blast
qed

text \<open>The theorem at the filter \<^verbatim>\<open>A > 1\<close> on the dataset \<open>A = [1, 2, 3]\<close>,
  \<open>B = [x, y, z]\<close>, where two rows pass: with limit 1, and with limit \<open>-1\<close>.\<close>

lemma query_limit_1_parsed:
  "json_loads lib0 q_query_limit_1
   = Inr (PDict [(''operation'', PStr ''query''),
                 (''parameters'', PDict [(''filter'', PStr ''A > 1''), (''limit'', PInt 1)])])"
  by code_simp

lemma query_limit_neg_parsed:
  "json_loads lib0 q_query_limit_neg
   = Inr (PDict [(''operation'', PStr ''query''),
                 (''parameters'', PDict [(''filter'', PStr ''A > 1''), (''limit'', PInt (- 1))])])"
  by code_simp

lemma query_A_above_1:
  "df_query lib0 df_AB (PStr ''A > 1'') w
   = (Inr \<lparr> columns = [(''A'', Int64), (''B'', Object)],
            rows = [ [IntV 2, StrV ''y''], [IntV 3, StrV ''z''] ] \<rparr>, w)"
  by (simp add: lib0_def query0_def df_AB_def column_names_def)

lemma staged_AB_query:
  "staged lib0 (one_file ''temp_dataframe.csv'' csv_AB)
     [(''filter'', PStr ''A > 1''), (''limit'', PInt k)] df_AB"
  by (simp add: staged_def dict_get_def one_file_def lib0_def read_csv0_def)

lemma query_parameters:
  "dict_get [(''operation'', PStr ''query''),
             (''parameters'', PDict [(''filter'', PStr ''A > 1''), (''limit'', PInt k)])]
     ''parameters'' (PDict [])
   = PDict [(''filter'', PStr ''A > 1''), (''limit'', PInt k)]"
  by (simp add: dict_get_def)

theorem C3_witness:
  "DataFrameAnalysisTool_run lib0 (one_file ''temp_dataframe.csv'' csv_AB) q_query_limit_1
     = except_Exception ''Error during DataFrame analysis: ''
         (json_dumps lib0
            (PDict [(''shape'', PList [PInt 2, PInt 2]),
                    (''data'', PList [PDict [(''A'', PInt 2), (''B'', PStr ''y'')] ])]),
          one_file ''temp_dataframe.csv'' csv_AB)
   \<and> DataFrameAnalysisTool_run lib0 (one_file ''temp_dataframe.csv'' csv_AB) q_query_limit_neg
     = except_Exception ''Error during DataFrame analysis: ''
         (json_dumps lib0
            (PDict [(''shape'', PList [PInt 2, PInt 2]),
                    (''data'', PList [PDict [(''A'', PInt 2), (''B'', PStr ''y'')] ])]),
          one_file ''temp_dataframe.csv'' csv_AB)"
proof -
  have 1: "DataFrameAnalysisTool_run lib0 (one_file ''temp_dataframe.csv'' csv_AB) q_query_limit_1
     = except_Exception ''Error during DataFrame analysis: ''
         (json_dumps lib0
            (PDict [(''shape'', PList [PInt 2, PInt 2]),
                    (''data'', PList [PDict [(''A'', PInt 2), (''B'', PStr ''y'')] ])]),
          one_file ''temp_dataframe.csv'' csv_AB)"
    using C3_query_shape_and_limit
            [OF query_limit_1_parsed query_parameters staged_AB_query _ _ query_A_above_1, of 1]
    by (simp add: dict_get_def to_records_def column_names_def)
  have 2: "DataFrameAnalysisTool_run lib0 (one_file ''temp_dataframe.csv'' csv_AB) q_query_limit_neg
     = except_Exception ''Error during DataFrame analysis: ''
         (json_dumps lib0
            (PDict [(''shape'', PList [PInt 2, PInt 2]),
                    (''data'', PList [PDict [(''A'', PInt 2), (''B'', PStr ''y'')] ])]),
          one_file ''temp_dataframe.csv'' csv_AB)"
    using C3_query_shape_and_limit
            [OF query_limit_neg_parsed query_parameters staged_AB_query _ _ query_A_above_1,
             of "- 1"]
    by (simp add: dict_get_def to_records_def column_names_def)
  from 1 2 show ?thesis by blast
qed

text \<open>C3 as stated fails at limit \<open>-1\<close>: two rows pass the filter and one record is
  returned, which is not \<open>min 2 (-1)\<close> records.\<close>

lemma query_limit_neg:
  \<open>fst (DataFrameAnalysisTool_run lib0 (one_file ''temp_dataframe.csv'' csv_AB) q_query_limit_neg)
   = Inr ''{"shape": [2, 2], "data": [{"A": 2, "B": "y"}]}''\<close>
  by code_simp

theorem C3_counterexample:
  \<open>json_loads lib0 q_query_limit_neg
     = Inr (PDict [(''operation'', PStr ''query''),
                   (''parameters'', PDict [(''filter'', PStr ''A > 1''), (''limit'', PInt (- 1))])])
   \<and> fst (df_query lib0 df_AB (PStr ''A > 1'') (one_file ''temp_dataframe.csv'' csv_AB))
     = Inr \<lparr> columns = [(''A'', Int64), (''B'', Object)],
             rows = [ [IntV 2, StrV ''y''], [IntV 3, StrV ''z''] ] \<rparr>
   \<and> fst (DataFrameAnalysisTool_run lib0 (one_file ''temp_dataframe.csv'' csv_AB)
            q_query_limit_neg)
     = Inr ''{"shape": [2, 2], "data": [{"A": 2, "B": "y"}]}''
   \<and> min (2::int) (- 1) \<noteq> 1\<close>
  using query_limit_neg_parsed query_A_above_1 query_limit_neg by simp

subsection \<open>C4: one grouping column\<close>

lemma op_groupby_string_or_list:
  "op_groupby lib w (ps @ (''columns'', PStr a) # qs) df
   = op_groupby lib w (ps @ (''columns'', PList [PStr a]) # qs) df"
  by (cases "map_of ps ''columns''")
     (simp_all add: op_groupby_def dict_has_def dict_get_def map_add_def Let_def
        split: option.splits)

lemma analysis_staged_string_or_list:
  "analysis_staged lib w (PStr ''groupby'') (ps @ (''columns'', PStr a) # qs)
   = analysis_staged lib w (PStr ''groupby'') (ps @ (''columns'', PList [PStr a]) # qs)"
proof -
  have "dict_get (ps @ (''columns'', PStr a) # qs) ''temp_path'' d
        = dict_get (ps @ (''columns'', PList [PStr a]) # qs) ''temp_path'' d" for d
    by (simp add: dict_get_def map_add_def split: option.splits)
  moreover have "analysis_operation lib w (PStr ''groupby'') (ps @ (''columns'', PStr a) # qs) df
        = analysis_operation lib w (PStr ''groupby'') (ps @ (''columns'', PList [PStr a]) # qs) df"
    for df
    by (simp add: analysis_operation_def op_groupby_string_or_list)
  ultimately show ?thesis
    by (simp add: analysis_staged_def Let_def split: sum.splits)
qed

text \<open>
  C4. Two \<^verbatim>\<open>groupby\<close> requests whose parameters differ only in that \<^verbatim>\<open>columns\<close> is
  the string \<open>a\<close> in one and the one-element list \<open>[a]\<close> in the other get the same
  answer and leave the same state, for every library and every file system.
\<close>

theorem C4_groupby_string_or_singleton_list:
  assumes "json_loads lib query1 = Inr (PDict query_dict1)"
    and "json_loads lib query2 = Inr (PDict query_dict2)"
    and "dict_get query_dict1 ''operation'' PNone = PStr ''groupby''"
    and "dict_get query_dict2 ''operation'' PNone = PStr ''groupby''"
    and "dict_get query_dict1 ''parameters'' (PDict [])
         = PDict (ps @ (''columns'', PStr a) # qs)"
    and "dict_get query_dict2 ''parameters'' (PDict [])
         = PDict (ps @ (''columns'', PList [PStr a]) # qs)"
  shows "DataFrameAnalysisTool_run lib w query1 = DataFrameAnalysisTool_run lib w query2"
  using assms(3,4)
  by (simp add: DataFrameAnalysisTool_run_def analysis_body_request [OF assms(1) assms(5)]
        analysis_body_request [OF assms(2) assms(6)] analysis_staged_string_or_list)

text \<open>The theorem at \<^verbatim>\<open>{"columns": "B"}\<close> and \<^verbatim>\<open>{"columns": ["B"]}\<close>.\<close>

lemma groupby_str_parsed:
  "json_loads lib0 q_groupby_str
   = Inr (PDict [(''operation'', PStr ''groupby''),
                 (''parameters'', PDict [(''columns'', PStr ''B'')])])"
  by code_simp

lemma groupby_list_parsed:
  "json_loads lib0 q_groupby_list
   = Inr (PDict [(''operation'', PStr ''groupby''),
                 (''parameters'', PDict [(''columns'', PList [PStr ''B''])])])"
  by code_simp

lemma groupby_str_AB:
  \<open>fst (DataFrameAnalysisTool_run lib0 (one_file ''temp_dataframe.csv'' csv_AB) q_groupby_str)
   = Inr ''[{"B": "x"}, {"B": "y"}, {"B": "z"}]''\<close>
  by code_simp

theorem C4_witness:
  \<open>DataFrameAnalysisTool_run lib0 (one_file ''temp_dataframe.csv'' csv_AB) q_groupby_str
   = DataFrameAnalysisTool_run lib0 (one_file ''temp_dataframe.csv'' csv_AB) q_groupby_list
   \<and> fst (DataFrameAnalysisTool_run lib0 (one_file ''temp_dataframe.csv'' csv_AB) q_groupby_list)
     = Inr ''[{"B": "x"}, {"B": "y"}, {"B": "z"}]''\<close>
proof -
  have "DataFrameAnalysisTool_run lib0 (one_file ''temp_dataframe.csv'' csv_AB) q_groupby_str
        = DataFrameAnalysisTool_run lib0 (one_file ''temp_dataframe.csv'' csv_AB) q_groupby_list"
    by (rule C4_groupby_string_or_singleton_list
               [OF groupby_str_parsed groupby_list_parsed, where ps = "[]" and qs = "[]"])
       (simp_all add: dict_get_def)
  with groupby_str_AB show ?thesis by simp
qed

subsection \<open>Plot requests on a staged dataset\<close>

lemma visualization_run_staged:
  assumes "json_loads lib query = Inr (PDict query_dict)"
    and "dict_get query_dict ''parameters'' (PDict []) = PDict params"
    and "staged lib w params df"
  shows "DataVisualizationTool_run lib w query
         = except_Exception ''Error creating visualization: ''
             (case plt lib df Figure w of
                (Some e, w1) \<Rightarrow> (Inl e, w1)
              | (None, w1) \<Rightarrow>
                  (case render_plot lib w1 (dict_get query_dict ''plot_type'' PNone) params df of
                     (Inl e, w2) \<Rightarrow> (Inl e, w2)
                   | (Inr (Some s), w2) \<Rightarrow> (Inr s, w2)
                   | (Inr None, w2) \<Rightarrow>
                       save_figure lib w2 df
                         (dict_get query_dict ''save_path'' (PStr ''visualization.png''))))"
  by (simp add: DataVisualizationTool_run_def visualization_body_request [OF assms(1,2)]
        visualization_staged_df [OF assms(3)])

lemma plt_Figure:
  "plt_raises lib df (plt_calls w) Figure = None \<Longrightarrow>
   plt lib df Figure w = (None, w\<lparr>plt_calls := plt_calls w @ [Figure]\<rparr>)"
  by (simp add: plt_def)

subsection \<open>C5: a required parameter is missing\<close>

lemma render_plot_missing:
  assumes "name \<in> set (spec_required_params kind)" and "map_of params name = None"
  shows "\<exists>msg. render_plot lib w (PStr kind) params df = (Inr (Some msg), w)
               \<and> mentions msg (quoted name)"
proof -
  from assms(1) consider
      "kind = ''histogram''" "name = ''column''"
    | "kind = ''scatter''" "name = ''x'' \<or> name = ''y''"
    | "kind = ''bar''" "name = ''x'' \<or> name = ''y''"
    | "kind = ''line''" "name = ''x'' \<or> name = ''y''"
    | "kind = ''boxplot''" "name = ''column''"
    by (auto simp: spec_required_params_def split: if_splits)
  then show ?thesis
  proof cases
    case 1
    with assms(2) show ?thesis
      by (simp add: render_plot_def plot_histogram_def dict_has_def quoted_def)
  next
    case 2
    with assms(2) show ?thesis
      by (auto simp: render_plot_def plot_scatter_def dict_has_def quoted_def)
  next
    case 3
    with assms(2) show ?thesis
      by (auto simp: render_plot_def plot_bar_def dict_has_def quoted_def)
  next
    case 4
    with assms(2) show ?thesis
      by (auto simp: render_plot_def plot_line_def dict_has_def quoted_def)
  next
    case 5
    with assms(2) show ?thesis
      by (simp add: render_plot_def plot_boxplot_def dict_has_def quoted_def)
  qed
qed

text \<open>
  C5, as amended. The Renderer looks for the staging file, reads it and sets up the
  figure before it looks at the parameters. Once these three steps have succeeded, a
  request of a plot kind with required parameters that lacks one of them gets an error
  string that names the parameter in quotes, and the call ends there: the only call
  made on the plotting library is the set-up of the figure, nothing is drawn and no file
  is written or changed.
\<close>

theorem C5_missing_parameter_named_before_drawing:
  assumes "json_loads lib query = Inr (PDict query_dict)"
    and "dict_get query_dict ''parameters'' (PDict []) = PDict params"
    and "staged lib w params df"
    and "plt_raises lib df (plt_calls w) Figure = None"
    and "dict_get query_dict ''plot_type'' PNone = PStr kind"
    and "name \<in> set (spec_required_params kind)"
    and "map_of params name = None"
  shows "\<exists>msg. DataVisualizationTool_run lib w query
                 = (Inr msg, w\<lparr>plt_calls := plt_calls w @ [Figure]\<rparr>)
               \<and> mentions msg (quoted name)"
proof -
  from render_plot_missing [OF assms(6,7)] obtain msg where
    "render_plot lib (w\<lparr>plt_calls := plt_calls w @ [Figure]\<rparr>) (PStr kind) params df
     = (Inr (Some msg), w\<lparr>plt_calls := plt_calls w @ [Figure]\<rparr>)"
    and "mentions msg (quoted name)"
    by blast
  then show ?thesis
    by (simp add: visualization_run_staged [OF assms(1-3)] plt_Figure [OF assms(4)] assms(5))
qed

text \<open>The theorem at \<^verbatim>\<open>{"plot_type": "scatter", "parameters": {"x": "a"}}\<close> on a staged
  dataset.\<close>

lemma scatter_no_y_parsed:
  "json_loads lib0 q_scatter_no_y
   = Inr (PDict [(''plot_type'', PStr ''scatter''),
                 (''parameters'', PDict [(''x'', PStr ''a'')])])"
  by code_simp

lemma scatter_no_y_AB:
  "fst (DataVisualizationTool_run lib0 (one_file ''temp_dataframe.csv'' csv_AB) q_scatter_no_y)
   = Inr ''Error: 'x' and 'y' parameters required for scatter plot''"
  by code_simp

theorem C5_witness:
  "(\<exists>msg. DataVisualizationTool_run lib0 (one_file ''temp_dataframe.csv'' csv_AB) q_scatter_no_y
            = (Inr msg, (one_file ''temp_dataframe.csv'' csv_AB)\<lparr>plt_calls := [Figure]\<rparr>)
          \<and> mentions msg (quoted ''y''))
   \<and> fst (DataVisualizationTool_run lib0 (one_file ''temp_dataframe.csv'' csv_AB) q_scatter_no_y)
       = Inr ''Error: 'x' and 'y' parameters required for scatter plot''"
proof -
  have params: "dict_get [(''plot_type'', PStr ''scatter''),
                          (''parameters'', PDict [(''x'', PStr ''a'')])]
                  ''parameters'' (PDict [])
                = PDict [(''x'', PStr ''a'')]"
    by (simp add: dict_get_def)
  have there: "staged lib0 (one_file ''temp_dataframe.csv'' csv_AB) [(''x'', PStr ''a'')] df_AB"
    by (simp add: staged_def dict_get_def one_file_def lib0_def read_csv0_def)
  have "\<exists>msg. DataVisualizationTool_run lib0 (one_file ''temp_dataframe.csv'' csv_AB) q_scatter_no_y
            = (Inr msg, (one_file ''temp_dataframe.csv'' csv_AB)
                           \<lparr>plt_calls := plt_calls (one_file ''temp_dataframe.csv'' csv_AB)
                                          @ [Figure]\<rparr>)
          \<and> mentions msg (quoted ''y'')"
    by (rule C5_missing_parameter_named_before_drawing
               [OF scatter_no_y_parsed params there, where kind = "''scatter''"])
       (simp_all add: lib0_def dict_get_def spec_required_params_def)
  then show ?thesis
    using scatter_no_y_AB by (simp add: one_file_def)
qed

text \<open>C5 as stated fails for a histogram request without \<^verbatim>\<open>column\<close> when nothing is
  staged: the answer is the diagnostic of the missing staging file, which does not
  mention \<^verbatim>\<open>column\<close>.\<close>

lemma histogram_no_column_parsed:
  "json_loads lib0 q_histogram_no_column
   = Inr (PDict [(''plot_type'', PStr ''histogram''), (''parameters'', PDict [])])"
  by code_simp

lemma histogram_no_column_no_staging:
  "fst (DataVisualizationTool_run lib0 no_files q_histogram_no_column)
   = Inr ''Error: Temporary DataFrame file not found at temp_dataframe.csv''"
  by code_simp

lemma staging_diagnostic_no_column:
  "\<not> mentions ''Error: Temporary DataFrame file not found at temp_dataframe.csv'' ''column''"
  by code_simp

theorem C5_counterexample:
  "json_loads lib0 q_histogram_no_column
     = Inr (PDict [(''plot_type'', PStr ''histogram''), (''parameters'', PDict [])])
   \<and> ''column'' \<in> set (spec_required_params ''histogram'')
   \<and> fst (DataVisualizationTool_run lib0 no_files q_histogram_no_column)
     = Inr ''Error: Temporary DataFrame file not found at temp_dataframe.csv''
   \<and> \<not> mentions ''Error: Temporary DataFrame file not found at temp_dataframe.csv'' ''column''"
  using histogram_no_column_parsed histogram_no_column_no_staging staging_diagnostic_no_column
  by (simp add: spec_required_params_def)

subsection \<open>C8: rotated labels of a bar chart\<close>

lemma plt_calls_after:
  "plt lib df c w = (None, w') \<Longrightarrow> plt_calls w' = plt_calls w @ [c]"
  by (auto simp: plt_def write_file_def split: option.splits plt_call.splits sum.splits if_splits)

lemma plt_seq_calls:
  "plt_seq lib df cs w = (None, w') \<Longrightarrow> plt_calls w' = plt_calls w @ cs"
proof (induction cs arbitrary: w)
  case Nil
  then show ?case by simp
next
  case (Cons c cs)
  from Cons.prems obtain w1 where 1: "plt lib df c w = (None, w1)"
    and 2: "plt_seq lib df cs w1 = (None, w')"
    by (auto split: prod.splits option.splits)
  from plt_calls_after [OF 1] Cons.IH [OF 2] show ?case by simp
qed

lemma saved_not_caught:
  "except_Exception ''Error creating visualization: '' r
     = (Inr (''Visualization saved to '' @ path), w')
   \<Longrightarrow> r = (Inr (''Visualization saved to '' @ path), w')"
  by (auto simp: except_Exception_def split: prod.splits sum.splits if_splits)

lemma plot_bar_falls_through:
  assumes "plot_bar lib w1 params df = (Inr None, w2)"
    and "map_of params ''x'' = Some (PStr c)"
  shows "plt_calls w2
         = plt_calls w1
           @ [Barplot (PStr c) (dict_get params ''y'' PNone),
              Title (''Bar Chart: '' @ py_str lib (dict_get params ''y'' PNone) @ '' by ''
                     @ py_str lib (PStr c)),
              Xlabel (PStr c),
              Ylabel (dict_get params ''y'' PNone)]
           @ (if 5 < nunique (column_cells df c) then [Xticks_rotated] else [])"
proof -
  let ?cs = "[Barplot (PStr c) (dict_get params ''y'' PNone),
              Title (''Bar Chart: '' @ py_str lib (dict_get params ''y'' PNone) @ '' by ''
                     @ py_str lib (PStr c)),
              Xlabel (PStr c),
              Ylabel (dict_get params ''y'' PNone)]"
  have x: "dict_get params ''x'' PNone = PStr c"
    using assms(2) by (simp add: dict_get_def)
  from assms(1) have has: "dict_has params ''x''" "dict_has params ''y''"
    by (auto simp: plot_bar_def split: if_splits)
  from assms(1) has x obtain w' where seq: "plt_seq lib df ?cs w1 = (None, w')"
    and rest: "(case nunique_gt_5 lib df (PStr c) of
                  Inl e \<Rightarrow> (Inl e, w')
                | Inr many \<Rightarrow> if many then drawn (plt_seq lib df [Xticks_rotated] w')
                              else (Inr None, w')) = (Inr None, w2)"
    by (cases "plt_seq lib df ?cs w1")
       (auto simp: plot_bar_def Let_def split: option.splits)
  from rest have col: "c \<in> set (column_names df)"
    by (auto simp: nunique_gt_5_def split: if_splits)
  from plt_seq_calls [OF seq] have calls: "plt_calls w' = plt_calls w1 @ ?cs" .
  show ?thesis
  proof (cases "5 < nunique (column_cells df c)")
    case True
    with rest col have "drawn (plt_seq lib df [Xticks_rotated] w') = (Inr None, w2)"
      by (simp add: nunique_gt_5_def)
    then have "plt_seq lib df [Xticks_rotated] w' = (None, w2)"
      by (cases "plt_seq lib df [Xticks_rotated] w'")
         (auto simp: drawn_def split: option.splits)
    from plt_seq_calls [OF this] calls True show ?thesis by simp
  next
    case False
    with rest col have "w2 = w'"
      by (simp add: nunique_gt_5_def)
    with calls False show ?thesis by simp
  qed
qed

lemma save_figure_calls:
  assumes "save_figure lib w2 df save_path = (Inr s, w')"
  shows "\<exists>p. plt_calls w' = plt_calls w2 @ [Tight_layout, Savefig p, Close]"
proof -
  from assms obtain p made where
    "plt_seq lib df [Tight_layout, Savefig p, Close] (w2\<lparr>dirs := made\<rparr>) = (None, w')"
    by (cases "save_path")
       (auto simp: save_figure_def split: option.splits prod.splits sum.splits)
  from plt_seq_calls [OF this] show ?thesis by auto
qed

text \<open>
  C8. For a bar request on a staged dataset whose \<^verbatim>\<open>x\<close> names the column \<open>c\<close> and that
  ends with the chart saved, the call \<^verbatim>\<open>plt.xticks(rotation=45, ha='right')\<close> is among
  the plotting calls of that run exactly when column \<open>c\<close> has more than 5 distinct
  (non-missing) values.
\<close>

theorem C8_bar_labels_rotated_iff_more_than_5:
  assumes "json_loads lib query = Inr (PDict query_dict)"
    and "dict_get query_dict ''parameters'' (PDict []) = PDict params"
    and "staged lib w params df"
    and "dict_get query_dict ''plot_type'' PNone = PStr ''bar''"
    and "map_of params ''x'' = Some (PStr c)"
    and "DataVisualizationTool_run lib w query = (Inr (''Visualization saved to '' @ path), w')"
  shows "Xticks_rotated \<in> set (calls_added w w') \<longleftrightarrow> 5 < nunique (column_cells df c)"
proof -
  let ?save_path = "dict_get query_dict ''save_path'' (PStr ''visualization.png'')"
  have "except_Exception ''Error creating visualization: ''
          (case plt lib df Figure w of
             (Some e, w1) \<Rightarrow> (Inl e, w1)
           | (None, w1) \<Rightarrow>
               (case render_plot lib w1 (dict_get query_dict ''plot_type'' PNone) params df of
                  (Inl e, w2) \<Rightarrow> (Inl e, w2)
                | (Inr (Some s), w2) \<Rightarrow> (Inr s, w2)
                | (Inr None, w2) \<Rightarrow> save_figure lib w2 df ?save_path))
        = (Inr (''Visualization saved to '' @ path), w')"
    using assms(6) by (simp only: visualization_run_staged [OF assms(1-3)])
  from saved_not_caught [OF this] obtain w1 where fig: "plt lib df Figure w = (None, w1)"
    and "(case render_plot lib w1 (dict_get query_dict ''plot_type'' PNone) params df of
            (Inl e, w2) \<Rightarrow> (Inl e, w2)
          | (Inr (Some s), w2) \<Rightarrow> (Inr s, w2)
          | (Inr None, w2) \<Rightarrow> save_figure lib w2 df ?save_path)
         = (Inr (''Visualization saved to '' @ path), w')"
    by (cases "plt lib df Figure w") (auto split: option.splits)
  then have run1: "(case plot_bar lib w1 params df of
                  (Inl e, w2) \<Rightarrow> (Inl e, w2)
                | (Inr (Some s), w2) \<Rightarrow> (Inr s, w2)
                | (Inr None, w2) \<Rightarrow> save_figure lib w2 df ?save_path)
               = (Inr (''Visualization saved to '' @ path), w')"
    by (simp add: assms(4) render_plot_def)
  have early: "plot_bar lib w1 params df = (Inr (Some s), w2) \<Longrightarrow>
               s = ''Error: 'x' and 'y' parameters required for bar chart''" for s w2
    by (auto simp: plot_bar_def Let_def drawn_def
             split: if_splits prod.splits option.splits sum.splits)
  from run1 early obtain w2 where bar: "plot_bar lib w1 params df = (Inr None, w2)"
    and save: "save_figure lib w2 df ?save_path = (Inr (''Visualization saved to '' @ path), w')"
    by (cases "plot_bar lib w1 params df")
       (auto split: sum.splits option.splits)
  from save_figure_calls [OF save] obtain p where
    "plt_calls w' = plt_calls w2 @ [Tight_layout, Savefig p, Close]"
    by blast
  with plt_calls_after [OF fig] plot_bar_falls_through [OF bar assms(5)]
  show ?thesis
    by (simp add: calls_added_def)
qed

text \<open>The theorem on a dataset whose \<open>k\<close> column has six distinct values, and on one
  whose \<open>k\<close> column has six rows but five distinct values.\<close>

lemma bar_parsed:
  "json_loads lib0 q_bar
   = Inr (PDict [(''plot_type'', PStr ''bar''),
                 (''parameters'', PDict [(''x'', PStr ''k''), (''y'', PStr ''v'')])])"
  by code_simp

lemma staged_six:
  "staged lib0 (one_file ''temp_dataframe.csv'' csv_six)
     [(''x'', PStr ''k''), (''y'', PStr ''v'')] df_six"
  by code_simp

lemma staged_five:
  "staged lib0 (one_file ''temp_dataframe.csv'' csv_five)
     [(''x'', PStr ''k''), (''y'', PStr ''v'')] df_five"
  by code_simp

lemma bar_six_saved:
  "fst (DataVisualizationTool_run lib0 (one_file ''temp_dataframe.csv'' csv_six) q_bar)
   = Inr ''Visualization saved to visualization.png''"
  by code_simp

lemma bar_five_saved:
  "fst (DataVisualizationTool_run lib0 (one_file ''temp_dataframe.csv'' csv_five) q_bar)
   = Inr ''Visualization saved to visualization.png''"
  by code_simp

lemma nunique_six: "nunique (column_cells df_six ''k'') = 6"
  by code_simp

lemma nunique_five: "nunique (column_cells df_five ''k'') = 5"
  by code_simp

theorem C8_witness:
  "nunique (column_cells df_six ''k'') = 6
   \<and> Xticks_rotated
       \<in> set (calls_added (one_file ''temp_dataframe.csv'' csv_six)
                (snd (DataVisualizationTool_run lib0 (one_file ''temp_dataframe.csv'' csv_six)
                        q_bar)))
   \<and> nunique (column_cells df_five ''k'') = 5
   \<and> Xticks_rotated
       \<notin> set (calls_added (one_file ''temp_dataframe.csv'' csv_five)
                (snd (DataVisualizationTool_run lib0 (one_file ''temp_dataframe.csv'' csv_five)
                        q_bar)))"
proof -
  have params: "dict_get [(''plot_type'', PStr ''bar''),
                          (''parameters'', PDict [(''x'', PStr ''k''), (''y'', PStr ''v'')])]
                  ''parameters'' (PDict [])
                = PDict [(''x'', PStr ''k''), (''y'', PStr ''v'')]"
    by (simp add: dict_get_def)
  have kind: "dict_get [(''plot_type'', PStr ''bar''),
                        (''parameters'', PDict [(''x'', PStr ''k''), (''y'', PStr ''v'')])]
                ''plot_type'' PNone = PStr ''bar''"
    by (simp add: dict_get_def)
  have x: "map_of [(''x'', PStr ''k''), (''y'', PStr ''v'')] ''x'' = Some (PStr ''k'')"
    by simp
  have six: "DataVisualizationTool_run lib0 (one_file ''temp_dataframe.csv'' csv_six) q_bar
             = (Inr (''Visualization saved to '' @ ''visualization.png''),
                snd (DataVisualizationTool_run lib0 (one_file ''temp_dataframe.csv'' csv_six)
                       q_bar))"
    using bar_six_saved by (simp add: prod_eq_iff)
  have five: "DataVisualizationTool_run lib0 (one_file ''temp_dataframe.csv'' csv_five) q_bar
              = (Inr (''Visualization saved to '' @ ''visualization.png''),
                 snd (DataVisualizationTool_run lib0 (one_file ''temp_dataframe.csv'' csv_five)
                        q_bar))"
    using bar_five_saved by (simp add: prod_eq_iff)
  from C8_bar_labels_rotated_iff_more_than_5 [OF bar_parsed params staged_six kind x six]
       C8_bar_labels_rotated_iff_more_than_5 [OF bar_parsed params staged_five kind x five]
  show ?thesis
    by (simp add: nunique_six nunique_five)
qed

subsection \<open>C6: nothing at the staging path, and what the Dispatcher reads\<close>

lemma analysis_operation_frame:
  assumes "operation \<noteq> PStr ''custom''" and "operation \<noteq> PStr ''query''"
  shows "analysis_operation lib w1 operation params df
         = (fst (analysis_operation lib w2 operation params df), w1)"
  using assms
  by (auto simp: analysis_operation_def op_describe_def op_correlation_def op_groupby_def
        op_query_def op_summary_def Let_def split: sum.splits)

lemma analysis_staged_frame:
  assumes "operation \<noteq> PStr ''custom''" and "operation \<noteq> PStr ''query''"
    and "same_staging params w1 w2"
  shows "analysis_staged lib w1 operation params
         = (fst (analysis_staged lib w2 operation params), w1)"
proof -
  let ?temp_path = "dict_get params ''temp_path'' (PStr ''temp_dataframe.csv'')"
  have found: "os_path_exists lib w1 ?temp_path = os_path_exists lib w2 ?temp_path"
    using assms(3) by (auto simp: same_staging_def os_path_exists_def split: pyval.splits)
  have frame: "read_csv lib w1 ?temp_path = read_csv lib w2 ?temp_path"
    if "os_path_exists lib w2 ?temp_path = Inr True"
    using assms(3) by (auto simp: same_staging_def read_csv_def split: pyval.splits)
  note operation = analysis_operation_frame [OF assms(1,2), of lib w1 params _ w2]
  show ?thesis
  proof (cases "os_path_exists lib w2 ?temp_path")
    case (Inl e)
    with found show ?thesis by (simp add: analysis_staged_def)
  next
    case (Inr there)
    show ?thesis
    proof (cases there)
      case False
      with Inr found show ?thesis by (simp add: analysis_staged_def)
    next
      case True
      with Inr frame have "read_csv lib w1 ?temp_path = read_csv lib w2 ?temp_path"
        by simp
      with True Inr found operation show ?thesis
        by (cases "read_csv lib w2 ?temp_path") (simp_all add: analysis_staged_def)
    qed
  qed
qed

text \<open>
  C6, as amended. A request whose staging path (from \<^verbatim>\<open>parameters.temp_path\<close>, or the
  default \<^verbatim>\<open>temp_dataframe.csv\<close>) names nothing that exists, neither a file nor a
  directory, gets the diagnostic naming that path from the Dispatcher and from the
  Renderer, and nothing is done: the files and the figure are as before. For every
  operation but \<^verbatim>\<open>custom\<close> and \<^verbatim>\<open>query\<close>, the Dispatcher's answer is the same in any two
  file systems that hold the same thing at the staging path: its data comes from the
  staged file alone. The expression of \<^verbatim>\<open>custom\<close> and the filter of \<^verbatim>\<open>query\<close> are
  evaluated with the names of the tool's module in reach and may read any file.
\<close>

theorem C6_nothing_staged_and_staged_file_only:
  assumes "json_loads lib query = Inr (PDict query_dict)"
    and "dict_get query_dict ''parameters'' (PDict []) = PDict params"
  shows "(dict_get params ''temp_path'' (PStr ''temp_dataframe.csv'') = PStr temp_path
            \<and> files w temp_path = None \<and> temp_path \<notin> dirs w
          \<longrightarrow> DataFrameAnalysisTool_run lib w query
                = (Inr (''Error: Temporary DataFrame file not found at '' @ temp_path), w)
              \<and> DataVisualizationTool_run lib w query
                = (Inr (''Error: Temporary DataFrame file not found at '' @ temp_path), w))
         \<and> (dict_get query_dict ''operation'' PNone \<noteq> PStr ''custom''
            \<and> dict_get query_dict ''operation'' PNone \<noteq> PStr ''query''
            \<and> same_staging params w1 w2
          \<longrightarrow> fst (DataFrameAnalysisTool_run lib w1 query)
                = fst (DataFrameAnalysisTool_run lib w2 query))"
proof (intro conjI impI)
  assume "dict_get params ''temp_path'' (PStr ''temp_dataframe.csv'') = PStr temp_path
          \<and> files w temp_path = None \<and> temp_path \<notin> dirs w"
  then show "DataFrameAnalysisTool_run lib w query
             = (Inr (''Error: Temporary DataFrame file not found at '' @ temp_path), w)"
    and "DataVisualizationTool_run lib w query
         = (Inr (''Error: Temporary DataFrame file not found at '' @ temp_path), w)"
    by (simp_all add: DataFrameAnalysisTool_run_def DataVisualizationTool_run_def
          analysis_body_request [OF assms] visualization_body_request [OF assms]
          analysis_staged_missing visualization_staged_missing)
next
  assume "dict_get query_dict ''operation'' PNone \<noteq> PStr ''custom''
          \<and> dict_get query_dict ''operation'' PNone \<noteq> PStr ''query''
          \<and> same_staging params w1 w2"
  then have "analysis_staged lib w1 (dict_get query_dict ''operation'' PNone) params
             = (fst (analysis_staged lib w2 (dict_get query_dict ''operation'' PNone) params), w1)"
    using analysis_staged_frame by blast
  then have "fst (analysis_staged lib w1 (dict_get query_dict ''operation'' PNone) params)
             = fst (analysis_staged lib w2 (dict_get query_dict ''operation'' PNone) params)"
    and "snd (analysis_staged lib w1 (dict_get query_dict ''operation'' PNone) params) = w1"
    by (simp_all add: prod_eq_iff)
  with except_Exception_same
         [of "analysis_staged lib w1 (dict_get query_dict ''operation'' PNone) params"
             "analysis_staged lib w2 (dict_get query_dict ''operation'' PNone) params"
             "''Error during DataFrame analysis: ''"]
  show "fst (DataFrameAnalysisTool_run lib w1 query)
        = fst (DataFrameAnalysisTool_run lib w2 query)"
    by (simp add: DataFrameAnalysisTool_run_def analysis_body_request [OF assms])
qed

text \<open>The theorem at an analysis request and a plot request that name \<^verbatim>\<open>nowhere.csv\<close>
  as their staging path while only the default staging file is present, and at a
  \<^verbatim>\<open>describe\<close> request in two file systems with the same staging file, one of which
  also holds a source file \<^verbatim>\<open>data.csv\<close>.\<close>

lemma describe_elsewhere_parsed:
  "json_loads lib0 q_describe_elsewhere
   = Inr (PDict [(''operation'', PStr ''describe''),
                 (''parameters'', PDict [(''temp_path'', PStr ''nowhere.csv'')])])"
  by code_simp

lemma histogram_elsewhere_parsed:
  "json_loads lib0 q_histogram_elsewhere
   = Inr (PDict [(''plot_type'', PStr ''histogram''),
                 (''parameters'', PDict [(''column'', PStr ''A''),
                                         (''temp_path'', PStr ''nowhere.csv'')])])"
  by code_simp

theorem C6_witness:
  "DataFrameAnalysisTool_run lib0 (one_file ''temp_dataframe.csv'' csv_AB) q_describe_elsewhere
     = (Inr ''Error: Temporary DataFrame file not found at nowhere.csv'',
        one_file ''temp_dataframe.csv'' csv_AB)
   \<and> DataVisualizationTool_run lib0 (one_file ''temp_dataframe.csv'' csv_AB) q_histogram_elsewhere
     = (Inr ''Error: Temporary DataFrame file not found at nowhere.csv'',
        one_file ''temp_dataframe.csv'' csv_AB)
   \<and> fst (DataFrameAnalysisTool_run lib0 (staged_beside csv_AB csv_six) q_describe)
     = fst (DataFrameAnalysisTool_run lib0 (one_file ''temp_dataframe.csv'' csv_AB) q_describe)"
proof -
  have params: "dict_get [(''operation'', PStr ''describe''),
                          (''parameters'', PDict [(''temp_path'', PStr ''nowhere.csv'')])]
                  ''parameters'' (PDict [])
                = PDict [(''temp_path'', PStr ''nowhere.csv'')]"
    by (simp add: dict_get_def)
  have plot_params:
    "dict_get [(''plot_type'', PStr ''histogram''),
               (''parameters'', PDict [(''column'', PStr ''A''),
                                       (''temp_path'', PStr ''nowhere.csv'')])]
       ''parameters'' (PDict [])
     = PDict [(''column'', PStr ''A''), (''temp_path'', PStr ''nowhere.csv'')]"
    by (simp add: dict_get_def)
  have same: "same_staging [] (staged_beside csv_AB csv_six)
                (one_file ''temp_dataframe.csv'' csv_AB)"
    by (simp add: same_staging_def dict_get_def staged_beside_def one_file_def)
  show ?thesis
    using C6_nothing_staged_and_staged_file_only [OF describe_elsewhere_parsed params,
            of "''nowhere.csv''" "one_file ''temp_dataframe.csv'' csv_AB"]
          C6_nothing_staged_and_staged_file_only [OF histogram_elsewhere_parsed plot_params,
            of "''nowhere.csv''" "one_file ''temp_dataframe.csv'' csv_AB"]
          C6_nothing_staged_and_staged_file_only [OF describe_parsed no_parameters,
            of _ _ "staged_beside csv_AB csv_six" "one_file ''temp_dataframe.csv'' csv_AB"]
          same
    by (simp add: dict_get_def one_file_def)
qed

text \<open>
  C6 as stated fails for \<^verbatim>\<open>custom\<close>: with the same staging file in both file systems, the
  expression \<^verbatim>\<open>len(pd.read_csv('data.csv'))\<close> is answered from the source file
  \<^verbatim>\<open>data.csv\<close>, 6 rows in one and 3 in the other.
\<close>

lemma custom_reads_six:
  "fst (DataFrameAnalysisTool_run lib0 (staged_beside csv_AB csv_six) q_custom_read_source)
   = Inr ''6''"
  by code_simp

lemma custom_reads_three:
  "fst (DataFrameAnalysisTool_run lib0 (staged_beside csv_AB csv_AB) q_custom_read_source)
   = Inr ''3''"
  by code_simp

text \<open>The filter of a \<^verbatim>\<open>query\<close> can do the same through \<^verbatim>\<open>@pd\<close>.\<close>

lemma query_reads_source:
  \<open>fst (DataFrameAnalysisTool_run lib0 (staged_beside csv_AB csv_six) q_query_source_rows)
     = Inr ''{"shape": [3, 2], "data": [{"A": 1, "B": "x"}, {"A": 2, "B": "y"}, {"A": 3, "B": "z"}]}''
   \<and> fst (DataFrameAnalysisTool_run lib0 (staged_beside csv_AB csv_AB) q_query_source_rows)
     = Inr ''{"shape": [2, 2], "data": [{"A": 1, "B": "x"}, {"A": 2, "B": "y"}]}''\<close>
  by code_simp

theorem C6_counterexample:
  "files (staged_beside csv_AB csv_six) ''temp_dataframe.csv''
     = files (staged_beside csv_AB csv_AB) ''temp_dataframe.csv''
   \<and> fst (DataFrameAnalysisTool_run lib0 (staged_beside csv_AB csv_six) q_custom_read_source)
     = Inr ''6''
   \<and> fst (DataFrameAnalysisTool_run lib0 (staged_beside csv_AB csv_AB) q_custom_read_source)
     = Inr ''3''"
  using custom_reads_six custom_reads_three by (simp add: staged_beside_def)

subsection \<open>The staging hand-off\<close>

text \<open>
  What the Loader leaves at the staging path is the text pandas wrote for the loaded
  frame, and that text is what a later request without \<^verbatim>\<open>temp_path\<close> is read from.
  Whether reading it back gives the same rows and columns is a property of the pandas
  writer and reader, which are parameters here.
\<close>

lemma loader_stages_written_text:
  assumes "stage_and_summarise lib w file_path df = (Inr s, w')"
  shows "\<exists>content. df_to_csv lib df = Inr content
                   \<and> files w' ''temp_dataframe.csv'' = Some content"
  using assms
  by (auto simp: stage_and_summarise_def write_file_def Let_def split: sum.splits if_splits)

lemma staged_after_loader:
  assumes "files w' ''temp_dataframe.csv'' = Some content"
  shows "staged lib w' [] df' = (pd_read_csv lib (PStr ''temp_dataframe.csv'') (Some content) = Inr df')"
  using assms by (simp add: staged_def dict_get_def)

end
